theory Spec2Isabelle
  imports Complex_Main
begin

section \<open>Memory, errors and machine arithmetic\<close>

text \<open>
  Every object the program owns is held through a \<^verbatim>\<open>std::unique_ptr\<close>. The code never
  calls \<^verbatim>\<open>get()\<close> or \<^verbatim>\<open>release()\<close> on the pointers modelled here, so the owned objects
  form a tree. A \<^verbatim>\<open>unique_ptr<T>\<close> is modelled as either null (\<open>None\<close>) or the address
  of the owned object together with its contents. Addresses are handed out by a counter
  (the next free address), threaded through every function that allocates; an address is
  never handed out twice.

  Undefined behaviour of the C++ code (dereferencing a null \<^verbatim>\<open>unique_ptr\<close>, indexing a
  vector out of range, signed overflow of \<^verbatim>\<open>int\<close>, reading a member before it is
  initialised) is an error value. \<^verbatim>\<open>double\<close> is modelled as \<open>real\<close>: rounding is not
  modelled. \<^verbatim>\<open>int\<close> is a 32-bit two's complement integer, modelled as \<open>int\<close> with its
  range checked where the code adds.
\<close>

type_synonym addr = nat

type_synonym 'a unique_ptr = "(addr \<times> 'a) option"

datatype error = NullDereference | OutOfBounds | SignedOverflow | IndeterminateRead

definition make_unique :: "'a \<Rightarrow> addr \<Rightarrow> 'a unique_ptr \<times> addr" where
  "make_unique v n = (Some (n, v), Suc n)"

definition INT_MIN :: int where
  "INT_MIN = - 2147483648"

definition INT_MAX :: int where
  "INT_MAX = 2147483647"

definition int_plus :: "int \<Rightarrow> int \<Rightarrow> error + int" where
  "int_plus a b = (if INT_MIN \<le> a + b \<and> a + b \<le> INT_MAX then Inr (a + b) else Inl SignedOverflow)"

section \<open>Normalized records (Flight\_Reservation\_Info.hpp, Hotel\_Reservation\_Info.hpp)\<close>

record FoundFlightInfo =
  ffi_airline :: string
  ffi_price :: real
  ffi_from_date :: string
  ffi_to_date :: string

record PassengerInfo =
  pi_from_date :: string
  pi_to_date :: string
  pi_from :: string
  pi_to :: string
  pi_children :: int
  pi_adults :: int
  pi_infants :: int

record FoundRoomInfo =
  fri_hotel :: string
  fri_from_date :: string
  fri_to_date :: string
  fri_view_type :: string
  fri_how_many :: int
  fri_price_for_night :: real

record CustomerInfo =
  ci_from_date :: string
  ci_to_date :: string
  ci_country :: string
  ci_city :: string
  ci_children :: int
  ci_adults :: int
  ci_needed_rooms :: int
  ci_number_of_nights :: int

text \<open>The defaulted constructors: strings empty, numbers value-initialised to zero.\<close>

definition FoundFlightInfo_default :: FoundFlightInfo where
  "FoundFlightInfo_default =
     \<lparr>ffi_airline = [], ffi_price = 0, ffi_from_date = [], ffi_to_date = []\<rparr>"

definition PassengerInfo_default :: PassengerInfo where
  "PassengerInfo_default =
     \<lparr>pi_from_date = [], pi_to_date = [], pi_from = [], pi_to = [],
      pi_children = 0, pi_adults = 0, pi_infants = 0\<rparr>"

definition FoundRoomInfo_default :: FoundRoomInfo where
  "FoundRoomInfo_default =
     \<lparr>fri_hotel = [], fri_from_date = [], fri_to_date = [], fri_view_type = [],
      fri_how_many = 0, fri_price_for_night = 0\<rparr>"

definition CustomerInfo_default :: CustomerInfo where
  "CustomerInfo_default =
     \<lparr>ci_from_date = [], ci_to_date = [], ci_country = [], ci_city = [],
      ci_children = 0, ci_adults = 0, ci_needed_rooms = 0, ci_number_of_nights = 0\<rparr>"

section \<open>Vendor records and stubs (Airport\_APIs, Hotel\_APIs)\<close>

record AirCanadaCustomerInfo =
  acc_from :: string
  acc_to :: string
  acc_date_time_from :: string
  acc_date_time_to :: string
  acc_adults :: int
  acc_children :: int
  acc_infants :: int

record AirCanadaFlight =
  acf_price :: real
  acf_date_time_from :: string
  acf_date_time_to :: string

record TurkishCustomerInfo =
  tc_from :: string
  tc_to :: string
  tc_datetime_from :: string
  tc_datetime_to :: string
  tc_adults :: int
  tc_children :: int
  tc_infants :: int

record TurkishFlight =
  tf_cost :: real
  tf_datetime_from :: string
  tf_datetime_to :: string

record HiltonCustomerInfo =
  hc_country :: string
  hc_city :: string
  hc_date_from :: string
  hc_date_to :: string
  hc_needed_rooms :: int
  hc_adults :: int
  hc_children :: int
  hc_number_of_nights :: int

record HiltonRoom =
  hr_room_type :: string
  hr_available_number :: int
  hr_price_per_night :: real
  hr_from_date :: string
  hr_to_date :: string

record MarriottFoundRoom =
  mr_room_type :: string
  mr_available_number :: int
  mr_price_per_night :: real
  mr_date_from :: string
  mr_date_to :: string

record MarriottCustomerInfo =
  mc_country :: string
  mc_city :: string
  mc_date_from :: string
  mc_date_to :: string
  mc_needed_rooms :: int
  mc_adults :: int
  mc_children :: int
  mc_number_of_nights :: int

definition AirCanadaCustomerInfo_default :: AirCanadaCustomerInfo where
  "AirCanadaCustomerInfo_default =
     \<lparr>acc_from = [], acc_to = [], acc_date_time_from = [], acc_date_time_to = [],
      acc_adults = 0, acc_children = 0, acc_infants = 0\<rparr>"

definition AirCanadaFlight_default :: AirCanadaFlight where
  "AirCanadaFlight_default = \<lparr>acf_price = 0, acf_date_time_from = [], acf_date_time_to = []\<rparr>"

definition TurkishCustomerInfo_default :: TurkishCustomerInfo where
  "TurkishCustomerInfo_default =
     \<lparr>tc_from = [], tc_to = [], tc_datetime_from = [], tc_datetime_to = [],
      tc_adults = 0, tc_children = 0, tc_infants = 0\<rparr>"

definition TurkishFlight_default :: TurkishFlight where
  "TurkishFlight_default = \<lparr>tf_cost = 0, tf_datetime_from = [], tf_datetime_to = []\<rparr>"

definition HiltonCustomerInfo_default :: HiltonCustomerInfo where
  "HiltonCustomerInfo_default =
     \<lparr>hc_country = [], hc_city = [], hc_date_from = [], hc_date_to = [],
      hc_needed_rooms = 0, hc_adults = 0, hc_children = 0, hc_number_of_nights = 0\<rparr>"

definition HiltonRoom_default :: HiltonRoom where
  "HiltonRoom_default =
     \<lparr>hr_room_type = [], hr_available_number = 0, hr_price_per_night = 0,
      hr_from_date = [], hr_to_date = []\<rparr>"

definition MarriottFoundRoom_default :: MarriottFoundRoom where
  "MarriottFoundRoom_default =
     \<lparr>mr_room_type = [], mr_available_number = 0, mr_price_per_night = 0,
      mr_date_from = [], mr_date_to = []\<rparr>"

definition MarriottCustomerInfo_default :: MarriottCustomerInfo where
  "MarriottCustomerInfo_default =
     \<lparr>mc_country = [], mc_city = [], mc_date_from = [], mc_date_to = [],
      mc_needed_rooms = 0, mc_adults = 0, mc_children = 0, mc_number_of_nights = 0\<rparr>"

text \<open>The stubs return canned offers.\<close>

definition AirCanadaOnlineAPI_getFlights :: "AirCanadaFlight list" where
  "AirCanadaOnlineAPI_getFlights =
     [\<lparr>acf_price = 200, acf_date_time_from = ''25-01-2022'', acf_date_time_to = ''10-02-2022''\<rparr>,
      \<lparr>acf_price = 250, acf_date_time_from = ''29-01-2022'', acf_date_time_to = ''10-02-2022''\<rparr>]"

definition TurkishAirlineOnlineAPI_getAvailableFlights :: "TurkishFlight list" where
  "TurkishAirlineOnlineAPI_getAvailableFlights =
     [\<lparr>tf_cost = 200, tf_datetime_from = ''25-01-2022'', tf_datetime_to = ''10-02-2022''\<rparr>,
      \<lparr>tf_cost = 250, tf_datetime_from = ''29-01-2022'', tf_datetime_to = ''10-02-2022''\<rparr>]"

definition HiltonHotelAPI_searchRooms :: "HiltonCustomerInfo \<Rightarrow> HiltonRoom list" where
  "HiltonHotelAPI_searchRooms customer_info =
     [\<lparr>hr_room_type = ''Interior View'', hr_available_number = 6, hr_price_per_night = 200,
       hr_from_date = ''29-01-2022'', hr_to_date = ''10-02-2022''\<rparr>,
      \<lparr>hr_room_type = ''City View'', hr_available_number = 3, hr_price_per_night = 300,
       hr_from_date = ''29-01-2022'', hr_to_date = ''10-02-2022''\<rparr>,
      \<lparr>hr_room_type = ''Deluxe View'', hr_available_number = 8, hr_price_per_night = 500,
       hr_from_date = ''29-01-2022'', hr_to_date = ''10-02-2022''\<rparr>]"

definition MarriottHotelAPI_findRooms :: "MarriottCustomerInfo \<Rightarrow> MarriottFoundRoom list" where
  "MarriottHotelAPI_findRooms customer_info =
     [\<lparr>mr_room_type = ''City View'', mr_available_number = 8, mr_price_per_night = 320,
       mr_date_from = ''29-01-2022'', mr_date_to = ''10-02-2022''\<rparr>,
      \<lparr>mr_room_type = ''Interior View'', mr_available_number = 8, mr_price_per_night = 220,
       mr_date_from = ''29-01-2022'', mr_date_to = ''10-02-2022''\<rparr>,
      \<lparr>mr_room_type = ''Private View'', mr_available_number = 5, mr_price_per_night = 600,
       mr_date_from = ''29-01-2022'', mr_date_to = ''10-02-2022''\<rparr>]"

section \<open>The adapters (Airports.cpp, Hotels.cpp)\<close>

record CanadaFlightReservation =
  canada_customer_info :: "AirCanadaCustomerInfo unique_ptr"
  canada_chosen_flight :: "AirCanadaFlight unique_ptr"

record TurkishFlightReservation =
  turkish_customer_info :: "TurkishCustomerInfo unique_ptr"
  turkish_chosen_flight :: "TurkishFlight unique_ptr"

record HiltonHotelReservation =
  hilton_customer_info :: "HiltonCustomerInfo unique_ptr"
  hilton_chosen_room :: "HiltonRoom unique_ptr"

record MarriottHotelReservation =
  marriott_customer_info :: "MarriottCustomerInfo unique_ptr"
  marriott_chosen_room :: "MarriottFoundRoom unique_ptr"

subsection \<open>getCost\<close>

definition CanadaFlightReservation_getCost :: "CanadaFlightReservation \<Rightarrow> error + real" where
  "CanadaFlightReservation_getCost this =
     (case canada_chosen_flight this of
        None \<Rightarrow> Inl NullDereference
      | Some (_, flight) \<Rightarrow>
          (case canada_customer_info this of
             None \<Rightarrow> Inl NullDereference
           | Some (_, info) \<Rightarrow>
               (case int_plus (acc_adults info) (acc_children info) of
                  Inl e \<Rightarrow> Inl e
                | Inr ac \<Rightarrow>
                    (case int_plus ac (acc_infants info) of
                       Inl e \<Rightarrow> Inl e
                     | Inr aci \<Rightarrow> Inr (acf_price flight * of_int aci)))))"

definition TurkishFlightReservation_getCost :: "TurkishFlightReservation \<Rightarrow> error + real" where
  "TurkishFlightReservation_getCost this =
     (case turkish_chosen_flight this of
        None \<Rightarrow> Inl NullDereference
      | Some (_, flight) \<Rightarrow>
          (case turkish_customer_info this of
             None \<Rightarrow> Inl NullDereference
           | Some (_, info) \<Rightarrow>
               (case int_plus (tc_adults info) (tc_children info) of
                  Inl e \<Rightarrow> Inl e
                | Inr ac \<Rightarrow>
                    (case int_plus ac (tc_infants info) of
                       Inl e \<Rightarrow> Inl e
                     | Inr aci \<Rightarrow> Inr (tf_cost flight * of_int aci)))))"

definition HiltonHotelReservation_getCost :: "HiltonHotelReservation \<Rightarrow> error + real" where
  "HiltonHotelReservation_getCost this =
     (case hilton_chosen_room this of
        None \<Rightarrow> Inl NullDereference
      | Some (_, room) \<Rightarrow>
          (case hilton_customer_info this of
             None \<Rightarrow> Inl NullDereference
           | Some (_, info) \<Rightarrow>
               Inr (hr_price_per_night room * of_int (hc_number_of_nights info)
                      * of_int (hc_needed_rooms info))))"

definition MarriottHotelReservation_getCost :: "MarriottHotelReservation \<Rightarrow> error + real" where
  "MarriottHotelReservation_getCost this =
     (case marriott_chosen_room this of
        None \<Rightarrow> Inl NullDereference
      | Some (_, room) \<Rightarrow>
          (case marriott_customer_info this of
             None \<Rightarrow> Inl NullDereference
           | Some (_, info) \<Rightarrow>
               Inr (mr_price_per_night room * of_int (mc_number_of_nights info)
                      * of_int (mc_needed_rooms info))))"

subsection \<open>Default and converting constructors, setters\<close>

definition CanadaFlightReservation_default :: "addr \<Rightarrow> CanadaFlightReservation \<times> addr" where
  "CanadaFlightReservation_default n =
     (case make_unique AirCanadaCustomerInfo_default n of
        (info, n1) \<Rightarrow>
          (case make_unique AirCanadaFlight_default n1 of
             (flight, n2) \<Rightarrow> (\<lparr>canada_customer_info = info, canada_chosen_flight = flight\<rparr>, n2)))"

definition TurkishFlightReservation_default :: "addr \<Rightarrow> TurkishFlightReservation \<times> addr" where
  "TurkishFlightReservation_default n =
     (case make_unique TurkishCustomerInfo_default n of
        (info, n1) \<Rightarrow>
          (case make_unique TurkishFlight_default n1 of
             (flight, n2) \<Rightarrow> (\<lparr>turkish_customer_info = info, turkish_chosen_flight = flight\<rparr>, n2)))"

definition HiltonHotelReservation_default :: "addr \<Rightarrow> HiltonHotelReservation \<times> addr" where
  "HiltonHotelReservation_default n =
     (case make_unique HiltonCustomerInfo_default n of
        (info, n1) \<Rightarrow>
          (case make_unique HiltonRoom_default n1 of
             (room, n2) \<Rightarrow> (\<lparr>hilton_customer_info = info, hilton_chosen_room = room\<rparr>, n2)))"

definition MarriottHotelReservation_default :: "addr \<Rightarrow> MarriottHotelReservation \<times> addr" where
  "MarriottHotelReservation_default n =
     (case make_unique MarriottCustomerInfo_default n of
        (info, n1) \<Rightarrow>
          (case make_unique MarriottFoundRoom_default n1 of
             (room, n2) \<Rightarrow> (\<lparr>marriott_customer_info = info, marriott_chosen_room = room\<rparr>, n2)))"

text \<open>
  The setters write through the adapter's own pointer into the record it already owns:
  the address stays, the contents change. The argument is only read.
\<close>

definition CanadaFlightReservation_setCustomerInfo ::
  "CanadaFlightReservation \<Rightarrow> PassengerInfo unique_ptr \<Rightarrow> error + CanadaFlightReservation" where
  "CanadaFlightReservation_setCustomerInfo this info =
     (case canada_customer_info this of
        None \<Rightarrow> Inl NullDereference
      | Some (a, c) \<Rightarrow>
          (case info of
             None \<Rightarrow> Inl NullDereference
           | Some (_, i) \<Rightarrow>
               Inr (this\<lparr>canada_customer_info := Some (a,
                      c\<lparr>acc_from := pi_from i, acc_to := pi_to i,
                        acc_date_time_from := pi_from_date i, acc_date_time_to := pi_to_date i,
                        acc_adults := pi_adults i, acc_children := pi_children i,
                        acc_infants := pi_infants i\<rparr>)\<rparr>)))"

definition CanadaFlightReservation_setChosenFlight ::
  "CanadaFlightReservation \<Rightarrow> FoundFlightInfo unique_ptr \<Rightarrow> error + CanadaFlightReservation" where
  "CanadaFlightReservation_setChosenFlight this info =
     (case canada_chosen_flight this of
        None \<Rightarrow> Inl NullDereference
      | Some (a, f) \<Rightarrow>
          (case info of
             None \<Rightarrow> Inl NullDereference
           | Some (_, i) \<Rightarrow>
               Inr (this\<lparr>canada_chosen_flight := Some (a,
                      f\<lparr>acf_date_time_from := ffi_from_date i, acf_date_time_to := ffi_to_date i,
                        acf_price := ffi_price i\<rparr>)\<rparr>)))"

definition TurkishFlightReservation_setCustomerInfo ::
  "TurkishFlightReservation \<Rightarrow> PassengerInfo unique_ptr \<Rightarrow> error + TurkishFlightReservation" where
  "TurkishFlightReservation_setCustomerInfo this info =
     (case turkish_customer_info this of
        None \<Rightarrow> Inl NullDereference
      | Some (a, c) \<Rightarrow>
          (case info of
             None \<Rightarrow> Inl NullDereference
           | Some (_, i) \<Rightarrow>
               Inr (this\<lparr>turkish_customer_info := Some (a,
                      c\<lparr>tc_from := pi_from i, tc_to := pi_to i,
                        tc_datetime_from := pi_from_date i, tc_datetime_to := pi_to_date i,
                        tc_adults := pi_adults i, tc_children := pi_children i,
                        tc_infants := pi_infants i\<rparr>)\<rparr>)))"

definition TurkishFlightReservation_setChosenFlight ::
  "TurkishFlightReservation \<Rightarrow> FoundFlightInfo unique_ptr \<Rightarrow> error + TurkishFlightReservation" where
  "TurkishFlightReservation_setChosenFlight this info =
     (case turkish_chosen_flight this of
        None \<Rightarrow> Inl NullDereference
      | Some (a, f) \<Rightarrow>
          (case info of
             None \<Rightarrow> Inl NullDereference
           | Some (_, i) \<Rightarrow>
               Inr (this\<lparr>turkish_chosen_flight := Some (a,
                      f\<lparr>tf_datetime_from := ffi_from_date i, tf_datetime_to := ffi_to_date i,
                        tf_cost := ffi_price i\<rparr>)\<rparr>)))"

definition HiltonHotelReservation_setCustomerInfo ::
  "HiltonHotelReservation \<Rightarrow> CustomerInfo unique_ptr \<Rightarrow> error + HiltonHotelReservation" where
  "HiltonHotelReservation_setCustomerInfo this info =
     (case hilton_customer_info this of
        None \<Rightarrow> Inl NullDereference
      | Some (a, c) \<Rightarrow>
          (case info of
             None \<Rightarrow> Inl NullDereference
           | Some (_, i) \<Rightarrow>
               Inr (this\<lparr>hilton_customer_info := Some (a,
                      c\<lparr>hc_country := ci_country i, hc_city := ci_city i,
                        hc_date_from := ci_from_date i, hc_date_to := ci_to_date i,
                        hc_adults := ci_adults i, hc_children := ci_children i,
                        hc_needed_rooms := ci_needed_rooms i,
                        hc_number_of_nights := ci_number_of_nights i\<rparr>)\<rparr>)))"

definition HiltonHotelReservation_setChosenRoomInfo ::
  "HiltonHotelReservation \<Rightarrow> FoundRoomInfo unique_ptr \<Rightarrow> error + HiltonHotelReservation" where
  "HiltonHotelReservation_setChosenRoomInfo this room_info =
     (case hilton_chosen_room this of
        None \<Rightarrow> Inl NullDereference
      | Some (a, r) \<Rightarrow>
          (case room_info of
             None \<Rightarrow> Inl NullDereference
           | Some (_, i) \<Rightarrow>
               Inr (this\<lparr>hilton_chosen_room := Some (a,
                      r\<lparr>hr_price_per_night := fri_price_for_night i,
                        hr_room_type := fri_view_type i,
                        hr_from_date := fri_from_date i, hr_to_date := fri_to_date i\<rparr>)\<rparr>)))"

definition MarriottHotelReservation_setCustomerInfo ::
  "MarriottHotelReservation \<Rightarrow> CustomerInfo unique_ptr \<Rightarrow> error + MarriottHotelReservation" where
  "MarriottHotelReservation_setCustomerInfo this info =
     (case marriott_customer_info this of
        None \<Rightarrow> Inl NullDereference
      | Some (a, c) \<Rightarrow>
          (case info of
             None \<Rightarrow> Inl NullDereference
           | Some (_, i) \<Rightarrow>
               Inr (this\<lparr>marriott_customer_info := Some (a,
                      c\<lparr>mc_country := ci_country i, mc_city := ci_city i,
                        mc_date_from := ci_from_date i, mc_date_to := ci_to_date i,
                        mc_adults := ci_adults i, mc_children := ci_children i,
                        mc_needed_rooms := ci_needed_rooms i,
                        mc_number_of_nights := ci_number_of_nights i\<rparr>)\<rparr>)))"

definition MarriottHotelReservation_setChosenRoomInfo ::
  "MarriottHotelReservation \<Rightarrow> FoundRoomInfo unique_ptr \<Rightarrow> error + MarriottHotelReservation" where
  "MarriottHotelReservation_setChosenRoomInfo this room_info =
     (case marriott_chosen_room this of
        None \<Rightarrow> Inl NullDereference
      | Some (a, r) \<Rightarrow>
          (case room_info of
             None \<Rightarrow> Inl NullDereference
           | Some (_, i) \<Rightarrow>
               Inr (this\<lparr>marriott_chosen_room := Some (a,
                      r\<lparr>mr_price_per_night := fri_price_for_night i,
                        mr_room_type := fri_view_type i,
                        mr_date_from := fri_from_date i, mr_date_to := fri_to_date i\<rparr>)\<rparr>)))"

text \<open>The converting constructors delegate to the default constructor, then call the setters.\<close>

definition CanadaFlightReservation_ctor ::
  "PassengerInfo unique_ptr \<Rightarrow> FoundFlightInfo unique_ptr \<Rightarrow> addr
     \<Rightarrow> error + (CanadaFlightReservation \<times> addr)" where
  "CanadaFlightReservation_ctor customer_info chosen_flight n =
     (case CanadaFlightReservation_default n of
        (this, n') \<Rightarrow>
          (case CanadaFlightReservation_setCustomerInfo this customer_info of
             Inl e \<Rightarrow> Inl e
           | Inr this1 \<Rightarrow>
               (case CanadaFlightReservation_setChosenFlight this1 chosen_flight of
                  Inl e \<Rightarrow> Inl e
                | Inr this2 \<Rightarrow> Inr (this2, n'))))"

definition TurkishFlightReservation_ctor ::
  "PassengerInfo unique_ptr \<Rightarrow> FoundFlightInfo unique_ptr \<Rightarrow> addr
     \<Rightarrow> error + (TurkishFlightReservation \<times> addr)" where
  "TurkishFlightReservation_ctor customer_info chosen_flight n =
     (case TurkishFlightReservation_default n of
        (this, n') \<Rightarrow>
          (case TurkishFlightReservation_setCustomerInfo this customer_info of
             Inl e \<Rightarrow> Inl e
           | Inr this1 \<Rightarrow>
               (case TurkishFlightReservation_setChosenFlight this1 chosen_flight of
                  Inl e \<Rightarrow> Inl e
                | Inr this2 \<Rightarrow> Inr (this2, n'))))"

definition HiltonHotelReservation_ctor ::
  "CustomerInfo unique_ptr \<Rightarrow> FoundRoomInfo unique_ptr \<Rightarrow> addr
     \<Rightarrow> error + (HiltonHotelReservation \<times> addr)" where
  "HiltonHotelReservation_ctor customer_info chosen_room n =
     (case HiltonHotelReservation_default n of
        (this, n') \<Rightarrow>
          (case HiltonHotelReservation_setCustomerInfo this customer_info of
             Inl e \<Rightarrow> Inl e
           | Inr this1 \<Rightarrow>
               (case HiltonHotelReservation_setChosenRoomInfo this1 chosen_room of
                  Inl e \<Rightarrow> Inl e
                | Inr this2 \<Rightarrow> Inr (this2, n'))))"

definition MarriottHotelReservation_ctor ::
  "CustomerInfo unique_ptr \<Rightarrow> FoundRoomInfo unique_ptr \<Rightarrow> addr
     \<Rightarrow> error + (MarriottHotelReservation \<times> addr)" where
  "MarriottHotelReservation_ctor customer_info chosen_room n =
     (case MarriottHotelReservation_default n of
        (this, n') \<Rightarrow>
          (case MarriottHotelReservation_setCustomerInfo this customer_info of
             Inl e \<Rightarrow> Inl e
           | Inr this1 \<Rightarrow>
               (case MarriottHotelReservation_setChosenRoomInfo this1 chosen_room of
                  Inl e \<Rightarrow> Inl e
                | Inr this2 \<Rightarrow> Inr (this2, n'))))"

subsection \<open>Operations of unique\_ptr\<close>

text \<open>
  \<^verbatim>\<open>release\<close> hands back the stored pointer and leaves null; \<^verbatim>\<open>reset\<close> stores a pointer and
  deletes the object owned before. Move assignment is \<^verbatim>\<open>reset(u.release())\<close>; when both
  sides are the same \<^verbatim>\<open>unique_ptr\<close>, the two steps run on the same storage. \<open>*p = *q\<close>
  copies the contents member by member into the object \<open>p\<close> points to.
\<close>

definition unique_ptr_release :: "'a unique_ptr \<Rightarrow> 'a unique_ptr \<times> 'a unique_ptr" where
  "unique_ptr_release u = (u, None)"

definition unique_ptr_reset :: "'a unique_ptr \<Rightarrow> 'a unique_ptr \<Rightarrow> 'a unique_ptr" where
  "unique_ptr_reset this raw = raw"

definition unique_ptr_move_ctor :: "'a unique_ptr \<Rightarrow> 'a unique_ptr \<times> 'a unique_ptr" where
  "unique_ptr_move_ctor u = unique_ptr_release u"

definition unique_ptr_move_assign ::
  "'a unique_ptr \<Rightarrow> 'a unique_ptr \<Rightarrow> 'a unique_ptr \<times> 'a unique_ptr" where
  "unique_ptr_move_assign this u =
     (case unique_ptr_release u of (raw, u') \<Rightarrow> (unique_ptr_reset this raw, u'))"

definition unique_ptr_self_move_assign :: "'a unique_ptr \<Rightarrow> 'a unique_ptr" where
  "unique_ptr_self_move_assign this =
     (case unique_ptr_release this of (raw, this') \<Rightarrow> unique_ptr_reset this' raw)"

definition assign_pointee :: "'a unique_ptr \<Rightarrow> 'a unique_ptr \<Rightarrow> error + 'a unique_ptr" where
  "assign_pointee p q =
     (case p of
        None \<Rightarrow> Inl NullDereference
      | Some (a, _) \<Rightarrow>
          (case q of
             None \<Rightarrow> Inl NullDereference
           | Some (_, v) \<Rightarrow> Inr (Some (a, v))))"

subsection \<open>Copy and move operations of the adapters\<close>

text \<open>
  An assignment operator compares \<^verbatim>\<open>this\<close> with \<^verbatim>\<open>&other\<close>, so the two objects come with
  their addresses. A move returns the new state of both objects.
\<close>

definition CanadaFlightReservation_copy_ctor ::
  "CanadaFlightReservation \<Rightarrow> addr \<Rightarrow> error + (CanadaFlightReservation \<times> addr)" where
  "CanadaFlightReservation_copy_ctor other n =
     (case CanadaFlightReservation_default n of
        (this, n') \<Rightarrow>
          (case assign_pointee (canada_customer_info this) (canada_customer_info other) of
             Inl e \<Rightarrow> Inl e
           | Inr p1 \<Rightarrow>
               (case assign_pointee (canada_chosen_flight this) (canada_chosen_flight other) of
                  Inl e \<Rightarrow> Inl e
                | Inr p2 \<Rightarrow> Inr (\<lparr>canada_customer_info = p1, canada_chosen_flight = p2\<rparr>, n'))))"

definition CanadaFlightReservation_copy_assign ::
  "addr \<times> CanadaFlightReservation \<Rightarrow> addr \<times> CanadaFlightReservation \<Rightarrow> error + CanadaFlightReservation" where
  "CanadaFlightReservation_copy_assign this_obj other_obj =
     (case this_obj of
        (this_addr, this) \<Rightarrow>
          (case other_obj of
             (other_addr, other) \<Rightarrow>
               (if this_addr \<noteq> other_addr then
                  (case assign_pointee (canada_customer_info this) (canada_customer_info other) of
             Inl e \<Rightarrow> Inl e
           | Inr p1 \<Rightarrow>
               (case assign_pointee (canada_chosen_flight this) (canada_chosen_flight other) of
                  Inl e \<Rightarrow> Inl e
                | Inr p2 \<Rightarrow> Inr \<lparr>canada_customer_info = p1, canada_chosen_flight = p2\<rparr>))
                else Inr this)))"

text \<open>
  The move constructor's member initialisers name the new object's own members
  (\<^verbatim>\<open>canada_customer_info(std::move(canada_customer_info))\<close>): each member is initialised
  from itself before it holds a value, and \<^verbatim>\<open>other\<close> is never read.
\<close>

definition CanadaFlightReservation_move_ctor ::
  "CanadaFlightReservation \<Rightarrow> error + (CanadaFlightReservation \<times> CanadaFlightReservation)" where
  "CanadaFlightReservation_move_ctor other = Inl IndeterminateRead"

text \<open>
  The move assignment assigns each member to itself
  (\<^verbatim>\<open>canada_customer_info = std::move(canada_customer_info)\<close>); \<^verbatim>\<open>other\<close> is only compared.
\<close>

definition CanadaFlightReservation_move_assign ::
  "addr \<times> CanadaFlightReservation \<Rightarrow> addr \<times> CanadaFlightReservation
     \<Rightarrow> CanadaFlightReservation \<times> CanadaFlightReservation" where
  "CanadaFlightReservation_move_assign this_obj other_obj =
     (case this_obj of
        (this_addr, this) \<Rightarrow>
          (case other_obj of
             (other_addr, other) \<Rightarrow>
               (if this_addr \<noteq> other_addr then
                  (\<lparr>canada_customer_info = unique_ptr_self_move_assign (canada_customer_info this),
                    canada_chosen_flight = unique_ptr_self_move_assign (canada_chosen_flight this)\<rparr>,
                   other)
                else (this, other))))"

definition TurkishFlightReservation_copy_ctor ::
  "TurkishFlightReservation \<Rightarrow> addr \<Rightarrow> error + (TurkishFlightReservation \<times> addr)" where
  "TurkishFlightReservation_copy_ctor other n =
     (case TurkishFlightReservation_default n of
        (this, n') \<Rightarrow>
          (case (case turkish_customer_info other of
                  None \<Rightarrow> Inr (turkish_customer_info this)
                | Some _ \<Rightarrow> assign_pointee (turkish_customer_info this) (turkish_customer_info other)) of
             Inl e \<Rightarrow> Inl e
           | Inr p1 \<Rightarrow>
               (case (case turkish_chosen_flight other of
                       None \<Rightarrow> Inr (turkish_chosen_flight this)
                     | Some _ \<Rightarrow> assign_pointee (turkish_chosen_flight this) (turkish_chosen_flight other)) of
                  Inl e \<Rightarrow> Inl e
                | Inr p2 \<Rightarrow> Inr (\<lparr>turkish_customer_info = p1, turkish_chosen_flight = p2\<rparr>, n'))))"

definition TurkishFlightReservation_copy_assign ::
  "addr \<times> TurkishFlightReservation \<Rightarrow> addr \<times> TurkishFlightReservation \<Rightarrow> error + TurkishFlightReservation" where
  "TurkishFlightReservation_copy_assign this_obj other_obj =
     (case this_obj of
        (this_addr, this) \<Rightarrow>
          (case other_obj of
             (other_addr, other) \<Rightarrow>
               (if this_addr \<noteq> other_addr then
                  (case (case turkish_customer_info other of
                  None \<Rightarrow> Inr (turkish_customer_info this)
                | Some _ \<Rightarrow> assign_pointee (turkish_customer_info this) (turkish_customer_info other)) of
             Inl e \<Rightarrow> Inl e
           | Inr p1 \<Rightarrow>
               (case (case turkish_chosen_flight other of
                       None \<Rightarrow> Inr (turkish_chosen_flight this)
                     | Some _ \<Rightarrow> assign_pointee (turkish_chosen_flight this) (turkish_chosen_flight other)) of
                  Inl e \<Rightarrow> Inl e
                | Inr p2 \<Rightarrow> Inr \<lparr>turkish_customer_info = p1, turkish_chosen_flight = p2\<rparr>))
                else Inr this)))"

text \<open>The Turkish move constructor initialises each member from itself as well.\<close>

definition TurkishFlightReservation_move_ctor ::
  "TurkishFlightReservation \<Rightarrow> error + (TurkishFlightReservation \<times> TurkishFlightReservation)" where
  "TurkishFlightReservation_move_ctor other = Inl IndeterminateRead"

definition TurkishFlightReservation_move_assign ::
  "addr \<times> TurkishFlightReservation \<Rightarrow> addr \<times> TurkishFlightReservation \<Rightarrow> TurkishFlightReservation \<times> TurkishFlightReservation" where
  "TurkishFlightReservation_move_assign this_obj other_obj =
     (case this_obj of
        (this_addr, this) \<Rightarrow>
          (case other_obj of
             (other_addr, other) \<Rightarrow>
               (if this_addr \<noteq> other_addr then
                  (case unique_ptr_move_assign (turkish_customer_info this) (turkish_customer_info other) of
                     (p1, o1) \<Rightarrow>
                       (case unique_ptr_move_assign (turkish_chosen_flight this) (turkish_chosen_flight other) of
                          (p2, o2) \<Rightarrow>
                            (\<lparr>turkish_customer_info = p1, turkish_chosen_flight = p2\<rparr>, \<lparr>turkish_customer_info = o1, turkish_chosen_flight = o2\<rparr>)))
                else (this, other))))"

definition HiltonHotelReservation_copy_ctor ::
  "HiltonHotelReservation \<Rightarrow> addr \<Rightarrow> error + (HiltonHotelReservation \<times> addr)" where
  "HiltonHotelReservation_copy_ctor other n =
     (case HiltonHotelReservation_default n of
        (this, n') \<Rightarrow>
          (case assign_pointee (hilton_customer_info this) (hilton_customer_info other) of
             Inl e \<Rightarrow> Inl e
           | Inr p1 \<Rightarrow>
               (case assign_pointee (hilton_chosen_room this) (hilton_chosen_room other) of
                  Inl e \<Rightarrow> Inl e
                | Inr p2 \<Rightarrow> Inr (\<lparr>hilton_customer_info = p1, hilton_chosen_room = p2\<rparr>, n'))))"

definition HiltonHotelReservation_copy_assign ::
  "addr \<times> HiltonHotelReservation \<Rightarrow> addr \<times> HiltonHotelReservation \<Rightarrow> error + HiltonHotelReservation" where
  "HiltonHotelReservation_copy_assign this_obj other_obj =
     (case this_obj of
        (this_addr, this) \<Rightarrow>
          (case other_obj of
             (other_addr, other) \<Rightarrow>
               (if this_addr \<noteq> other_addr then
                  (case assign_pointee (hilton_customer_info this) (hilton_customer_info other) of
             Inl e \<Rightarrow> Inl e
           | Inr p1 \<Rightarrow>
               (case assign_pointee (hilton_chosen_room this) (hilton_chosen_room other) of
                  Inl e \<Rightarrow> Inl e
                | Inr p2 \<Rightarrow> Inr \<lparr>hilton_customer_info = p1, hilton_chosen_room = p2\<rparr>))
                else Inr this)))"

definition HiltonHotelReservation_move_ctor :: "HiltonHotelReservation \<Rightarrow> HiltonHotelReservation \<times> HiltonHotelReservation" where
  "HiltonHotelReservation_move_ctor other =
     (case unique_ptr_move_ctor (hilton_customer_info other) of
        (p1, o1) \<Rightarrow>
          (case unique_ptr_move_ctor (hilton_chosen_room other) of
             (p2, o2) \<Rightarrow>
               (\<lparr>hilton_customer_info = p1, hilton_chosen_room = p2\<rparr>, \<lparr>hilton_customer_info = o1, hilton_chosen_room = o2\<rparr>)))"

definition HiltonHotelReservation_move_assign ::
  "addr \<times> HiltonHotelReservation \<Rightarrow> addr \<times> HiltonHotelReservation \<Rightarrow> HiltonHotelReservation \<times> HiltonHotelReservation" where
  "HiltonHotelReservation_move_assign this_obj other_obj =
     (case this_obj of
        (this_addr, this) \<Rightarrow>
          (case other_obj of
             (other_addr, other) \<Rightarrow>
               (if this_addr \<noteq> other_addr then
                  (case unique_ptr_move_assign (hilton_customer_info this) (hilton_customer_info other) of
                     (p1, o1) \<Rightarrow>
                       (case unique_ptr_move_assign (hilton_chosen_room this) (hilton_chosen_room other) of
                          (p2, o2) \<Rightarrow>
                            (\<lparr>hilton_customer_info = p1, hilton_chosen_room = p2\<rparr>, \<lparr>hilton_customer_info = o1, hilton_chosen_room = o2\<rparr>)))
                else (this, other))))"

definition MarriottHotelReservation_copy_ctor ::
  "MarriottHotelReservation \<Rightarrow> addr \<Rightarrow> error + (MarriottHotelReservation \<times> addr)" where
  "MarriottHotelReservation_copy_ctor other n =
     (case MarriottHotelReservation_default n of
        (this, n') \<Rightarrow>
          (case (case marriott_customer_info other of
                  None \<Rightarrow> Inr (marriott_customer_info this)
                | Some _ \<Rightarrow> assign_pointee (marriott_customer_info this) (marriott_customer_info other)) of
             Inl e \<Rightarrow> Inl e
           | Inr p1 \<Rightarrow>
               (case (case marriott_chosen_room other of
                       None \<Rightarrow> Inr (marriott_chosen_room this)
                     | Some _ \<Rightarrow> assign_pointee (marriott_chosen_room this) (marriott_chosen_room other)) of
                  Inl e \<Rightarrow> Inl e
                | Inr p2 \<Rightarrow> Inr (\<lparr>marriott_customer_info = p1, marriott_chosen_room = p2\<rparr>, n'))))"

definition MarriottHotelReservation_copy_assign ::
  "addr \<times> MarriottHotelReservation \<Rightarrow> addr \<times> MarriottHotelReservation \<Rightarrow> error + MarriottHotelReservation" where
  "MarriottHotelReservation_copy_assign this_obj other_obj =
     (case this_obj of
        (this_addr, this) \<Rightarrow>
          (case other_obj of
             (other_addr, other) \<Rightarrow>
               (if this_addr \<noteq> other_addr then
                  (case (case marriott_customer_info other of
                  None \<Rightarrow> Inr (marriott_customer_info this)
                | Some _ \<Rightarrow> assign_pointee (marriott_customer_info this) (marriott_customer_info other)) of
             Inl e \<Rightarrow> Inl e
           | Inr p1 \<Rightarrow>
               (case (case marriott_chosen_room other of
                       None \<Rightarrow> Inr (marriott_chosen_room this)
                     | Some _ \<Rightarrow> assign_pointee (marriott_chosen_room this) (marriott_chosen_room other)) of
                  Inl e \<Rightarrow> Inl e
                | Inr p2 \<Rightarrow> Inr \<lparr>marriott_customer_info = p1, marriott_chosen_room = p2\<rparr>))
                else Inr this)))"

definition MarriottHotelReservation_move_ctor :: "MarriottHotelReservation \<Rightarrow> MarriottHotelReservation \<times> MarriottHotelReservation" where
  "MarriottHotelReservation_move_ctor other =
     (case unique_ptr_move_ctor (marriott_customer_info other) of
        (p1, o1) \<Rightarrow>
          (case unique_ptr_move_ctor (marriott_chosen_room other) of
             (p2, o2) \<Rightarrow>
               (\<lparr>marriott_customer_info = p1, marriott_chosen_room = p2\<rparr>, \<lparr>marriott_customer_info = o1, marriott_chosen_room = o2\<rparr>)))"

definition MarriottHotelReservation_move_assign ::
  "addr \<times> MarriottHotelReservation \<Rightarrow> addr \<times> MarriottHotelReservation \<Rightarrow> MarriottHotelReservation \<times> MarriottHotelReservation" where
  "MarriottHotelReservation_move_assign this_obj other_obj =
     (case this_obj of
        (this_addr, this) \<Rightarrow>
          (case other_obj of
             (other_addr, other) \<Rightarrow>
               (if this_addr \<noteq> other_addr then
                  (case unique_ptr_move_assign (marriott_customer_info this) (marriott_customer_info other) of
                     (p1, o1) \<Rightarrow>
                       (case unique_ptr_move_assign (marriott_chosen_room this) (marriott_chosen_room other) of
                          (p2, o2) \<Rightarrow>
                            (\<lparr>marriott_customer_info = p1, marriott_chosen_room = p2\<rparr>, \<lparr>marriott_customer_info = o1, marriott_chosen_room = o2\<rparr>)))
                else (this, other))))"

subsection \<open>getAvailableFlights, getAvailableRooms\<close>

text \<open>
  The caller's vector is the argument and the result. The loop over the vendor's offers
  pushes one tagged record per offer.
\<close>

fun CanadaFlightReservation_push_offers ::
  "AirCanadaFlight list \<Rightarrow> FoundFlightInfo list \<Rightarrow> FoundFlightInfo list" where
  "CanadaFlightReservation_push_offers [] flights = flights"
| "CanadaFlightReservation_push_offers (f # available_flights) flights =
     CanadaFlightReservation_push_offers available_flights
       (flights @ [\<lparr>ffi_airline = ''Canada'', ffi_price = acf_price f,
                    ffi_from_date = acf_date_time_from f, ffi_to_date = acf_date_time_to f\<rparr>])"

definition CanadaFlightReservation_getAvailableFlights ::
  "CanadaFlightReservation \<Rightarrow> FoundFlightInfo list \<Rightarrow> FoundFlightInfo list" where
  "CanadaFlightReservation_getAvailableFlights this flights =
     CanadaFlightReservation_push_offers AirCanadaOnlineAPI_getFlights flights"

fun TurkishFlightReservation_push_offers ::
  "TurkishFlight list \<Rightarrow> FoundFlightInfo list \<Rightarrow> FoundFlightInfo list" where
  "TurkishFlightReservation_push_offers [] flights = flights"
| "TurkishFlightReservation_push_offers (f # available_flights) flights =
     TurkishFlightReservation_push_offers available_flights
       (flights @ [\<lparr>ffi_airline = ''Turkish'', ffi_price = tf_cost f,
                    ffi_from_date = tf_datetime_from f, ffi_to_date = tf_datetime_to f\<rparr>])"

definition TurkishFlightReservation_getAvailableFlights ::
  "TurkishFlightReservation \<Rightarrow> FoundFlightInfo list \<Rightarrow> FoundFlightInfo list" where
  "TurkishFlightReservation_getAvailableFlights this flights =
     TurkishFlightReservation_push_offers TurkishAirlineOnlineAPI_getAvailableFlights flights"

fun HiltonHotelReservation_push_offers ::
  "HiltonRoom list \<Rightarrow> FoundRoomInfo list \<Rightarrow> FoundRoomInfo list" where
  "HiltonHotelReservation_push_offers [] rooms = rooms"
| "HiltonHotelReservation_push_offers (r # available_rooms) rooms =
     HiltonHotelReservation_push_offers available_rooms
       (rooms @ [\<lparr>fri_hotel = ''Hilton'', fri_from_date = hr_from_date r,
                  fri_to_date = hr_to_date r, fri_view_type = hr_room_type r,
                  fri_how_many = hr_available_number r,
                  fri_price_for_night = hr_price_per_night r\<rparr>])"

text \<open>The hotel adapters hand their own criteria record to the stub, through the pointer.\<close>

definition HiltonHotelReservation_getAvailableRooms ::
  "HiltonHotelReservation \<Rightarrow> FoundRoomInfo list \<Rightarrow> error + FoundRoomInfo list" where
  "HiltonHotelReservation_getAvailableRooms this rooms =
     (case hilton_customer_info this of
        None \<Rightarrow> Inl NullDereference
      | Some (_, info) \<Rightarrow>
          Inr (HiltonHotelReservation_push_offers (HiltonHotelAPI_searchRooms info) rooms))"

fun MarriottHotelReservation_push_offers ::
  "MarriottFoundRoom list \<Rightarrow> FoundRoomInfo list \<Rightarrow> FoundRoomInfo list" where
  "MarriottHotelReservation_push_offers [] rooms = rooms"
| "MarriottHotelReservation_push_offers (r # available_rooms) rooms =
     MarriottHotelReservation_push_offers available_rooms
       (rooms @ [\<lparr>fri_hotel = ''Marriott'', fri_from_date = mr_date_from r,
                  fri_to_date = mr_date_to r, fri_view_type = mr_room_type r,
                  fri_how_many = mr_available_number r,
                  fri_price_for_night = mr_price_per_night r\<rparr>])"

definition MarriottHotelReservation_getAvailableRooms ::
  "MarriottHotelReservation \<Rightarrow> FoundRoomInfo list \<Rightarrow> error + FoundRoomInfo list" where
  "MarriottHotelReservation_getAvailableRooms this rooms =
     (case marriott_customer_info this of
        None \<Rightarrow> Inl NullDereference
      | Some (_, info) \<Rightarrow>
          Inr (MarriottHotelReservation_push_offers (MarriottHotelAPI_findRooms info) rooms))"

subsection \<open>getDetails\<close>

text \<open>
  What a sequence of \<^verbatim>\<open><<\<close> writes is the list of the values written, in order: how a
  stream formats a number is the stream's business. The adapters write to the stream
  they are given.
\<close>

datatype out_item = Text string | Integer int | Double real

definition CanadaFlightReservation_getDetails ::
  "CanadaFlightReservation \<Rightarrow> error + out_item list" where
  "CanadaFlightReservation_getDetails this =
     (case canada_customer_info this of
        None \<Rightarrow> Inl NullDereference
      | Some (_, info) \<Rightarrow>
          (case CanadaFlightReservation_getCost this of
             Inl e \<Rightarrow> Inl e
           | Inr cost \<Rightarrow>
               Inr [Text (''Airline Reservation/ AirCanada Airline: '' @ [CHR 0x0A]),
                    Text ''From: '', Text (acc_from info),
                    Text ''  on: '', Text (acc_date_time_from info),
                    Text ''  To: '', Text (acc_to info),
                    Text ''  on: '', Text (acc_date_time_to info),
                    Text [CHR 0x0A], Text ([CHR 0x09, CHR 0x09] @ ''Adults: ''),
                    Integer (acc_adults info), Text ''  -  Children: '',
                    Integer (acc_children info), Text ''  -  Infants: '',
                    Integer (acc_infants info),
                    Text [CHR 0x0A], Text ([CHR 0x09, CHR 0x09] @ ''Flight Cost: ''),
                    Double cost]))"

definition TurkishFlightReservation_getDetails ::
  "TurkishFlightReservation \<Rightarrow> error + out_item list" where
  "TurkishFlightReservation_getDetails this =
     (case turkish_customer_info this of
        None \<Rightarrow> Inl NullDereference
      | Some (_, info) \<Rightarrow>
          (case TurkishFlightReservation_getCost this of
             Inl e \<Rightarrow> Inl e
           | Inr cost \<Rightarrow>
               Inr [Text (''Airline Reservation/ Turkish Airline: '' @ [CHR 0x0A]),
                    Text ''From: '', Text (tc_from info),
                    Text ''  on: '', Text (tc_datetime_from info),
                    Text ''  To: '', Text (tc_to info),
                    Text ''  on: '', Text (tc_datetime_to info),
                    Text [CHR 0x0A], Text ([CHR 0x09, CHR 0x09] @ ''Adults: ''),
                    Integer (tc_adults info), Text ''  -  Children: '',
                    Integer (tc_children info), Text ''  -  '',
                    Integer (tc_infants info),
                    Text [CHR 0x0A], Text ([CHR 0x09, CHR 0x09] @ ''Flight Cost: ''),
                    Double cost]))"

definition HiltonHotelReservation_getDetails ::
  "HiltonHotelReservation \<Rightarrow> error + out_item list" where
  "HiltonHotelReservation_getDetails this =
     (case hilton_customer_info this of
        None \<Rightarrow> Inl NullDereference
      | Some (_, info) \<Rightarrow>
          (case HiltonHotelReservation_getCost this of
             Inl e \<Rightarrow> Inl e
           | Inr cost \<Rightarrow>
               Inr [Text ''Hotel Reservation / Hilton Hotel: '', Text (hc_country info),
                    Text '' @ '', Text (hc_city info),
                    Text ''  from '', Text (hc_date_from info),
                    Text ''  to '', Text (hc_date_to info),
                    Text '' ('', Integer (hc_number_of_nights info),
                    Text ('')'' @ [CHR 0x0A]), Text ([CHR 0x09, CHR 0x09] @ ''Adults: ''),
                    Integer (hc_adults info),
                    Text ([CHR 0x0A, CHR 0x09, CHR 0x09] @ ''Children: ''),
                    Integer (hc_children info),
                    Text ([CHR 0x0A, CHR 0x09, CHR 0x09] @ ''Room Cost For All Nights: ''),
                    Double cost, Text [CHR 0x0A]]))"

definition MarriottHotelReservation_getDetails ::
  "MarriottHotelReservation \<Rightarrow> error + out_item list" where
  "MarriottHotelReservation_getDetails this =
     (case marriott_customer_info this of
        None \<Rightarrow> Inl NullDereference
      | Some (_, info) \<Rightarrow>
          (case MarriottHotelReservation_getCost this of
             Inl e \<Rightarrow> Inl e
           | Inr cost \<Rightarrow>
               Inr [Text ''Hotel Reservation / Marriott Hotel: '', Text (mc_country info),
                    Text '' @ '', Text (mc_city info),
                    Text ''  from '', Text (mc_date_from info),
                    Text ''  to '', Text (mc_date_to info),
                    Text '' ('', Integer (mc_number_of_nights info),
                    Text ('')'' @ [CHR 0x0A]), Text ([CHR 0x09, CHR 0x09] @ ''Adults: ''),
                    Integer (mc_adults info),
                    Text ([CHR 0x0A, CHR 0x09, CHR 0x09] @ ''Children: ''),
                    Integer (mc_children info),
                    Text ([CHR 0x0A, CHR 0x09, CHR 0x09] @ ''Room Cost For ALl Nights: ''),
                    Double cost, Text [CHR 0x0A]]))"

section \<open>The Reservation hierarchy and the Itinerary (Reservation.hpp, Itinerary.cpp)\<close>

text \<open>
  \<^verbatim>\<open>Reservation\<close> is the abstract base; \<^verbatim>\<open>FlightReservation\<close> and \<^verbatim>\<open>HotelReservation\<close> are
  the abstract adapter interfaces; \<^verbatim>\<open>Itinerary\<close> is a Reservation that owns a vector of
  \<^verbatim>\<open>unique_ptr<Reservation>\<close>. The vector is private and grows only by
  \<^verbatim>\<open>push_back(reservation->clone())\<close>, whose result is never null, so an element is an
  address with the object it holds. A virtual call is a case distinction on the constructor.
\<close>

datatype FlightReservation =
  Canada CanadaFlightReservation
| Turkish TurkishFlightReservation

datatype HotelReservation =
  Hilton HiltonHotelReservation
| Marriott MarriottHotelReservation

datatype Reservation =
  Flight FlightReservation
| Hotel HotelReservation
| Itinerary "(addr \<times> Reservation) list"

text \<open>
  \<^verbatim>\<open>Itinerary::getCost\<close> runs \<^verbatim>\<open>std::for_each\<close> with a \<^verbatim>\<open>Sum<double>\<close> functor, whose \<open>sum\<close>
  starts at zero and grows by each element's \<^verbatim>\<open>getCost()\<close> in order.
\<close>

fun getCost :: "Reservation \<Rightarrow> error + real"
  and for_each_Sum :: "(addr \<times> Reservation) list \<Rightarrow> real \<Rightarrow> error + real" where
  "getCost (Flight (Canada c)) = CanadaFlightReservation_getCost c"
| "getCost (Flight (Turkish t)) = TurkishFlightReservation_getCost t"
| "getCost (Hotel (Hilton h)) = HiltonHotelReservation_getCost h"
| "getCost (Hotel (Marriott m)) = MarriottHotelReservation_getCost m"
| "getCost (Itinerary Reservations) = for_each_Sum Reservations 0"
| "for_each_Sum [] acc = Inr acc"
| "for_each_Sum ((a, reservation) # rest) acc =
     (case getCost reservation of
        Inl e \<Rightarrow> Inl e
      | Inr c \<Rightarrow> for_each_Sum rest (acc + c))"

text \<open>
  \<^verbatim>\<open>Itinerary::getDetails\<close> writes its header, each child's details and its footer to the
  stream it is given, and a newline after each child to \<^verbatim>\<open>std::cout\<close>.
\<close>

datatype ostream = Given | Std_cout

fun getDetails :: "Reservation \<Rightarrow> error + (ostream \<times> out_item) list"
  and getDetails_each :: "(addr \<times> Reservation) list \<Rightarrow> error + (ostream \<times> out_item) list" where
  "getDetails (Flight (Canada c)) = map_sum id (map (Pair Given)) (CanadaFlightReservation_getDetails c)"
| "getDetails (Flight (Turkish t)) = map_sum id (map (Pair Given)) (TurkishFlightReservation_getDetails t)"
| "getDetails (Hotel (Hilton h)) = map_sum id (map (Pair Given)) (HiltonHotelReservation_getDetails h)"
| "getDetails (Hotel (Marriott m)) = map_sum id (map (Pair Given)) (MarriottHotelReservation_getDetails m)"
| "getDetails (Itinerary Reservations) =
     (case getDetails_each Reservations of
        Inl e \<Rightarrow> Inl e
      | Inr children \<Rightarrow>
          (case for_each_Sum Reservations 0 of
             Inl e \<Rightarrow> Inl e
           | Inr cost \<Rightarrow>
               Inr ([(Given, Text ''Itinerary of ''),
                     (Given, Integer (int (length Reservations))),
                     (Given, Text ('' sub-reservations: '' @ [CHR 0x0A]))]
                    @ children
                    @ [(Given, Text ([CHR 0x0A] @ ''Itinerary Cost: '')),
                       (Given, Double cost),
                       (Given, Text ([CHR 0x0A] @ ''----------------------------------''
                                       @ [CHR 0x0A]))])))"
| "getDetails_each [] = Inr []"
| "getDetails_each ((a, reservation) # rest) =
     (case getDetails reservation of
        Inl e \<Rightarrow> Inl e
      | Inr d \<Rightarrow>
          (case getDetails_each rest of
             Inl e \<Rightarrow> Inl e
           | Inr ds \<Rightarrow> Inr (d @ [(Std_cout, Text [CHR 0x0A])] @ ds)))"

text \<open>
  \<^verbatim>\<open>clone\<close> is \<^verbatim>\<open>std::make_unique<T>(*this)\<close>: storage for the new object is allocated,
  then the copy constructor of \<open>T\<close> runs. The copy constructor of \<^verbatim>\<open>Itinerary\<close> starts from
  an empty vector and calls \<^verbatim>\<open>addReservation\<close> (that is, \<^verbatim>\<open>push_back(reservation->clone())\<close>)
  for each element of the source, in order.
\<close>

fun clone :: "Reservation \<Rightarrow> addr \<Rightarrow> error + ((addr \<times> Reservation) \<times> addr)"
  and addReservation_each ::
    "(addr \<times> Reservation) list \<Rightarrow> (addr \<times> Reservation) list \<Rightarrow> addr
       \<Rightarrow> error + ((addr \<times> Reservation) list \<times> addr)" where
  "clone (Flight (Canada c)) n =
     (case CanadaFlightReservation_copy_ctor c (Suc n) of
        Inl e \<Rightarrow> Inl e
      | Inr (c', n') \<Rightarrow> Inr ((n, Flight (Canada c')), n'))"
| "clone (Flight (Turkish t)) n =
     (case TurkishFlightReservation_copy_ctor t (Suc n) of
        Inl e \<Rightarrow> Inl e
      | Inr (t', n') \<Rightarrow> Inr ((n, Flight (Turkish t')), n'))"
| "clone (Hotel (Hilton h)) n =
     (case HiltonHotelReservation_copy_ctor h (Suc n) of
        Inl e \<Rightarrow> Inl e
      | Inr (h', n') \<Rightarrow> Inr ((n, Hotel (Hilton h')), n'))"
| "clone (Hotel (Marriott m)) n =
     (case MarriottHotelReservation_copy_ctor m (Suc n) of
        Inl e \<Rightarrow> Inl e
      | Inr (m', n') \<Rightarrow> Inr ((n, Hotel (Marriott m')), n'))"
| "clone (Itinerary Reservations) n =
     (case addReservation_each Reservations [] (Suc n) of
        Inl e \<Rightarrow> Inl e
      | Inr (copied, n') \<Rightarrow> Inr ((n, Itinerary copied), n'))"
| "addReservation_each [] this n = Inr (this, n)"
| "addReservation_each ((a, reservation) # rest) this n =
     (case clone reservation n of
        Inl e \<Rightarrow> Inl e
      | Inr (p, n') \<Rightarrow> addReservation_each rest (this @ [p]) n')"

subsection \<open>Itinerary\<close>

text \<open>The state of an Itinerary object is its vector \<^verbatim>\<open>Reservations\<close>.\<close>

type_synonym Reservations = "(addr \<times> Reservation) list"

definition Itinerary_default :: Reservations where
  "Itinerary_default = []"

definition Itinerary_addReservation ::
  "Reservations \<Rightarrow> Reservation unique_ptr \<Rightarrow> addr \<Rightarrow> error + (Reservations \<times> addr)" where
  "Itinerary_addReservation this reservation n =
     (case reservation of
        None \<Rightarrow> Inl NullDereference
      | Some (_, r) \<Rightarrow>
          (case clone r n of
             Inl e \<Rightarrow> Inl e
           | Inr (p, n') \<Rightarrow> Inr (this @ [p], n')))"

definition Itinerary_clear :: "Reservations \<Rightarrow> Reservations" where
  "Itinerary_clear this = []"

definition Itinerary_isEmpty :: "Reservations \<Rightarrow> bool" where
  "Itinerary_isEmpty this = (if this = [] then True else False)"

definition Itinerary_getCost :: "Reservations \<Rightarrow> error + real" where
  "Itinerary_getCost this = getCost (Itinerary this)"

definition Itinerary_getDetails :: "Reservations \<Rightarrow> error + (ostream \<times> out_item) list" where
  "Itinerary_getDetails this = getDetails (Itinerary this)"

definition Itinerary_clone :: "Reservations \<Rightarrow> addr \<Rightarrow> error + ((addr \<times> Reservation) \<times> addr)" where
  "Itinerary_clone this n = clone (Itinerary this) n"

definition Itinerary_copy_ctor :: "Reservations \<Rightarrow> addr \<Rightarrow> error + (Reservations \<times> addr)" where
  "Itinerary_copy_ctor other n = addReservation_each other Itinerary_default n"

text \<open>A vector that has been moved from is empty.\<close>

definition Itinerary_move_ctor :: "Reservations \<Rightarrow> Reservations \<times> Reservations" where
  "Itinerary_move_ctor other = (other, [])"

definition Itinerary_copy_assign ::
  "addr \<times> Reservations \<Rightarrow> addr \<times> Reservations \<Rightarrow> addr \<Rightarrow> error + (Reservations \<times> addr)" where
  "Itinerary_copy_assign this_obj other_obj n =
     (case this_obj of
        (this_addr, this) \<Rightarrow>
          (case other_obj of
             (other_addr, other) \<Rightarrow>
               (if this_addr \<noteq> other_addr then addReservation_each other this n
                else Inr (this, n))))"

definition Itinerary_move_assign ::
  "addr \<times> Reservations \<Rightarrow> addr \<times> Reservations \<Rightarrow> Reservations \<times> Reservations" where
  "Itinerary_move_assign this_obj other_obj =
     (case this_obj of
        (this_addr, this) \<Rightarrow>
          (case other_obj of
             (other_addr, other) \<Rightarrow>
               (if this_addr \<noteq> other_addr then (other, []) else (this, other))))"

text \<open>A caller that adds one reservation after another (ItineraryBuilder does).\<close>

fun add_all :: "Reservations \<Rightarrow> Reservation unique_ptr list \<Rightarrow> addr \<Rightarrow> error + (Reservations \<times> addr)" where
  "add_all this [] n = Inr (this, n)"
| "add_all this (item # items) n =
     (case Itinerary_addReservation this item n of
        Inl e \<Rightarrow> Inl e
      | Inr (this', n') \<Rightarrow> add_all this' items n')"

subsection \<open>The addresses an object owns\<close>

definition ptr_addr :: "'a unique_ptr \<Rightarrow> addr list" where
  "ptr_addr p = (case p of None \<Rightarrow> [] | Some (a, _) \<Rightarrow> [a])"

fun FlightReservation_owned :: "FlightReservation \<Rightarrow> addr list" where
  "FlightReservation_owned (Canada c) =
     ptr_addr (canada_customer_info c) @ ptr_addr (canada_chosen_flight c)"
| "FlightReservation_owned (Turkish t) =
     ptr_addr (turkish_customer_info t) @ ptr_addr (turkish_chosen_flight t)"

fun HotelReservation_owned :: "HotelReservation \<Rightarrow> addr list" where
  "HotelReservation_owned (Hilton h) =
     ptr_addr (hilton_customer_info h) @ ptr_addr (hilton_chosen_room h)"
| "HotelReservation_owned (Marriott m) =
     ptr_addr (marriott_customer_info m) @ ptr_addr (marriott_chosen_room m)"

fun owned :: "Reservation \<Rightarrow> addr list"
  and owned_each :: "(addr \<times> Reservation) list \<Rightarrow> addr list" where
  "owned (Flight f) = FlightReservation_owned f"
| "owned (Hotel h) = HotelReservation_owned h"
| "owned (Itinerary Reservations) = owned_each Reservations"
| "owned_each [] = []"
| "owned_each ((a, reservation) # rest) = a # owned reservation @ owned_each rest"

section \<open>The builder workflow (Make\_Reservation.cpp)\<close>

text \<open>
  \<^verbatim>\<open>Airports\<close> and \<^verbatim>\<open>Hotels\<close> are filled by the constructor with \<^verbatim>\<open>make_unique\<close> results and
  never change afterwards. What the user types at \<^verbatim>\<open>std::cin\<close> is an argument; what the
  workflow prints is left out.
\<close>

record MakeReservation =
  Airports :: "(addr \<times> FlightReservation) list"
  Hotels :: "(addr \<times> HotelReservation) list"
  passenger_info :: "PassengerInfo unique_ptr"
  customer_info :: "CustomerInfo unique_ptr"
  chosen_flight :: "FoundFlightInfo unique_ptr"
  chosen_room :: "FoundRoomInfo unique_ptr"

definition MakeReservation_ctor :: "addr \<Rightarrow> MakeReservation \<times> addr" where
  "MakeReservation_ctor n =
     (case CanadaFlightReservation_default (Suc n) of
        (c, n1) \<Rightarrow>
          (case TurkishFlightReservation_default (Suc n1) of
             (t, n2) \<Rightarrow>
               (case HiltonHotelReservation_default (Suc n2) of
                  (h, n3) \<Rightarrow>
                    (case MarriottHotelReservation_default (Suc n3) of
                       (m, n4) \<Rightarrow>
                         (\<lparr>Airports = [(n, Canada c), (n1, Turkish t)],
                           Hotels = [(n2, Hilton h), (n3, Marriott m)],
                           passenger_info = None, customer_info = None,
                           chosen_flight = None, chosen_room = None\<rparr>, n4)))))"

fun FlightReservation_getAvailableFlights ::
  "FlightReservation \<Rightarrow> FoundFlightInfo list \<Rightarrow> FoundFlightInfo list" where
  "FlightReservation_getAvailableFlights (Canada c) flights =
     CanadaFlightReservation_getAvailableFlights c flights"
| "FlightReservation_getAvailableFlights (Turkish t) flights =
     TurkishFlightReservation_getAvailableFlights t flights"

fun HotelReservation_getAvailableRooms ::
  "HotelReservation \<Rightarrow> FoundRoomInfo list \<Rightarrow> error + FoundRoomInfo list" where
  "HotelReservation_getAvailableRooms (Hilton h) rooms =
     HiltonHotelReservation_getAvailableRooms h rooms"
| "HotelReservation_getAvailableRooms (Marriott m) rooms =
     MarriottHotelReservation_getAvailableRooms m rooms"

text \<open>The loops over the registered adapters, sharing one output vector.\<close>

fun getAvailableFlights_each ::
  "(addr \<times> FlightReservation) list \<Rightarrow> FoundFlightInfo list \<Rightarrow> FoundFlightInfo list" where
  "getAvailableFlights_each [] available_flights = available_flights"
| "getAvailableFlights_each ((a, airport) # rest) available_flights =
     getAvailableFlights_each rest (FlightReservation_getAvailableFlights airport available_flights)"

fun getAvailableRooms_each ::
  "(addr \<times> HotelReservation) list \<Rightarrow> FoundRoomInfo list \<Rightarrow> error + FoundRoomInfo list" where
  "getAvailableRooms_each [] available_rooms = Inr available_rooms"
| "getAvailableRooms_each ((a, hotel) # rest) available_rooms =
     (case HotelReservation_getAvailableRooms hotel available_rooms of
        Inl e \<Rightarrow> Inl e
      | Inr available_rooms' \<Rightarrow> getAvailableRooms_each rest available_rooms')"

text \<open>
  The factory hands its own pointers to the adapter's constructor by rvalue reference; the
  constructor only reads through them, so the builder keeps owning both records.
\<close>

definition ReservationFactory ::
  "MakeReservation \<Rightarrow> string \<Rightarrow> addr \<Rightarrow> error + (Reservation unique_ptr \<times> addr)" where
  "ReservationFactory this brand n =
     (if brand = ''Canada'' then
        (case CanadaFlightReservation_ctor (passenger_info this) (chosen_flight this) (Suc n) of
           Inl e \<Rightarrow> Inl e
         | Inr (c, n') \<Rightarrow> Inr (Some (n, Flight (Canada c)), n'))
      else if brand = ''Turkish'' then
        (case TurkishFlightReservation_ctor (passenger_info this) (chosen_flight this) (Suc n) of
           Inl e \<Rightarrow> Inl e
         | Inr (t, n') \<Rightarrow> Inr (Some (n, Flight (Turkish t)), n'))
      else if brand = ''Hilton'' then
        (case HiltonHotelReservation_ctor (customer_info this) (chosen_room this) (Suc n) of
           Inl e \<Rightarrow> Inl e
         | Inr (h, n') \<Rightarrow> Inr (Some (n, Hotel (Hilton h)), n'))
      else if brand = ''Marriott'' then
        (case MarriottHotelReservation_ctor (customer_info this) (chosen_room this) (Suc n) of
           Inl e \<Rightarrow> Inl e
         | Inr (m, n') \<Rightarrow> Inr (Some (n, Hotel (Marriott m)), n'))
      else Inr (None, n))"

text \<open>
  \<^verbatim>\<open>reservingFlight\<close>: the arguments after \<open>this\<close> are the values read from \<^verbatim>\<open>std::cin\<close>, in
  the order the code reads them. \<^verbatim>\<open>available_flights[choice - 1]\<close> is an unchecked
  \<^verbatim>\<open>operator[]\<close>: outside the vector it is an error.
\<close>

definition reservingFlight ::
  "MakeReservation \<Rightarrow> string \<Rightarrow> string \<Rightarrow> string \<Rightarrow> string \<Rightarrow> int \<Rightarrow> int \<Rightarrow> int \<Rightarrow> int \<Rightarrow> addr
     \<Rightarrow> error + (Reservation unique_ptr \<times> MakeReservation \<times> addr)" where
  "reservingFlight this from_in from_date_in to_in to_date_in adults_in children_in infants_in
       choice n =
     (case make_unique PassengerInfo_default n of
        (None, _) \<Rightarrow> Inl NullDereference
      | (Some (pa, p), n1) \<Rightarrow>
          (case make_unique FoundFlightInfo_default n1 of
             (None, _) \<Rightarrow> Inl NullDereference
           | (Some (fa, f), n2) \<Rightarrow>
               (let this1 = this\<lparr>passenger_info := Some (pa,
                               p\<lparr>pi_from := from_in, pi_from_date := from_date_in,
                                 pi_to := to_in, pi_to_date := to_date_in,
                                 pi_adults := adults_in, pi_children := children_in,
                                 pi_infants := infants_in\<rparr>),
                             chosen_flight := Some (fa, f)\<rparr>;
                    available_flights = getAvailableFlights_each (Airports this1) []
                in if choice = - 1 \<or> choice > int (length available_flights) then
                     Inr (None, this1, n2)
                   else if 0 \<le> choice - 1 \<and> choice - 1 < int (length available_flights) then
                     (let this2 = this1\<lparr>chosen_flight :=
                                    Some (fa, available_flights ! nat (choice - 1))\<rparr>
                      in case ReservationFactory this2
                                (ffi_airline (available_flights ! nat (choice - 1))) n2 of
                           Inl e \<Rightarrow> Inl e
                         | Inr (r, n3) \<Rightarrow> Inr (r, this2, n3))
                   else Inl OutOfBounds)))"

text \<open>
  \<^verbatim>\<open>reservingRoom\<close> reads country, city, the two dates, adults, children and the number of
  nights; it never reads or writes \<^verbatim>\<open>needed_rooms\<close>.
\<close>

definition reservingRoom ::
  "MakeReservation \<Rightarrow> string \<Rightarrow> string \<Rightarrow> string \<Rightarrow> string \<Rightarrow> int \<Rightarrow> int \<Rightarrow> int \<Rightarrow> int \<Rightarrow> addr
     \<Rightarrow> error + (Reservation unique_ptr \<times> MakeReservation \<times> addr)" where
  "reservingRoom this country_in city_in from_date_in to_date_in adults_in children_in nights_in
       choice n =
     (case make_unique CustomerInfo_default n of
        (None, _) \<Rightarrow> Inl NullDereference
      | (Some (ca, c), n1) \<Rightarrow>
          (case make_unique FoundRoomInfo_default n1 of
             (None, _) \<Rightarrow> Inl NullDereference
           | (Some (ra, r), n2) \<Rightarrow>
               (let this1 = this\<lparr>customer_info := Some (ca,
                               c\<lparr>ci_country := country_in, ci_city := city_in,
                                 ci_from_date := from_date_in, ci_to_date := to_date_in,
                                 ci_adults := adults_in, ci_children := children_in,
                                 ci_number_of_nights := nights_in\<rparr>),
                             chosen_room := Some (ra, r)\<rparr>
                in case getAvailableRooms_each (Hotels this1) [] of
                     Inl e \<Rightarrow> Inl e
                   | Inr available_rooms \<Rightarrow>
                       (if choice = - 1 \<or> choice > int (length available_rooms) then
                          Inr (None, this1, n2)
                        else if 0 \<le> choice - 1 \<and> choice - 1 < int (length available_rooms) then
                          (let this2 = this1\<lparr>chosen_room :=
                                         Some (ra, available_rooms ! nat (choice - 1))\<rparr>
                           in case ReservationFactory this2
                                     (fri_hotel (available_rooms ! nat (choice - 1))) n2 of
                                Inl e \<Rightarrow> Inl e
                              | Inr (res, n3) \<Rightarrow> Inr (res, this2, n3))
                        else Inl OutOfBounds))))"

section \<open>Notions used in the statements\<close>

text \<open>
  An object holds all its records when no pointer in it is null. The adapters' constructors
  establish this; only an adapter that has been moved from loses it.
\<close>

fun FlightReservation_never_null :: "FlightReservation \<Rightarrow> bool" where
  "FlightReservation_never_null (Canada c) =
     (canada_customer_info c \<noteq> None \<and> canada_chosen_flight c \<noteq> None)"
| "FlightReservation_never_null (Turkish t) =
     (turkish_customer_info t \<noteq> None \<and> turkish_chosen_flight t \<noteq> None)"

fun HotelReservation_never_null :: "HotelReservation \<Rightarrow> bool" where
  "HotelReservation_never_null (Hilton h) =
     (hilton_customer_info h \<noteq> None \<and> hilton_chosen_room h \<noteq> None)"
| "HotelReservation_never_null (Marriott m) =
     (marriott_customer_info m \<noteq> None \<and> marriott_chosen_room m \<noteq> None)"

fun never_null :: "Reservation \<Rightarrow> bool"
  and never_null_each :: "(addr \<times> Reservation) list \<Rightarrow> bool" where
  "never_null (Flight f) = FlightReservation_never_null f"
| "never_null (Hotel h) = HotelReservation_never_null h"
| "never_null (Itinerary Reservations) = never_null_each Reservations"
| "never_null_each [] = True"
| "never_null_each ((a, reservation) # rest) = (never_null reservation \<and> never_null_each rest)"

text \<open>Two objects show the same state to an observer.\<close>

definition same_state :: "Reservation \<Rightarrow> Reservation \<Rightarrow> bool" where
  "same_state c r = (getCost c = getCost r \<and> getDetails c = getDetails r)"

text \<open>
  An itinerary owns its elements exclusively when no address occurs twice among the
  objects it owns; \<open>n\<close> is the next free address, so every object that exists lies below it.
\<close>

definition exclusive :: "Reservations \<Rightarrow> addr \<Rightarrow> bool" where
  "exclusive this n = (distinct (owned_each this) \<and> list_all (\<lambda>b. b < n) (owned_each this))"

text \<open>Sequences of the two mutating operations of an Itinerary.\<close>

datatype Itinerary_op = AddReservation "addr \<times> Reservation" | Clear

fun Itinerary_apply :: "Reservations \<Rightarrow> Itinerary_op list \<Rightarrow> addr \<Rightarrow> error + (Reservations \<times> addr)" where
  "Itinerary_apply this [] n = Inr (this, n)"
| "Itinerary_apply this (AddReservation item # ops) n =
     (case Itinerary_addReservation this (Some item) n of
        Inl e \<Rightarrow> Inl e
      | Inr (this', n') \<Rightarrow> Itinerary_apply this' ops n')"
| "Itinerary_apply this (Clear # ops) n = Itinerary_apply (Itinerary_clear this) ops n"

fun op_never_null :: "Itinerary_op \<Rightarrow> bool" where
  "op_never_null (AddReservation item) = never_null (snd item)"
| "op_never_null Clear = True"

section \<open>The scenario of the specification\<close>

text \<open>
  Two adults and a child fly from Toronto to Istanbul on the Air Canada offer at 200; they
  take two Hilton rooms at 300 a night for three nights. The flight reservation lives at
  address 0 and owns the records at 1 and 2, the hotel reservation lives at 3 and owns 4
  and 5, an itinerary of both lives at 6; the next free address is 7.
\<close>

definition scenario_canada :: CanadaFlightReservation where
  "scenario_canada =
     \<lparr>canada_customer_info = Some (1,
        \<lparr>acc_from = ''Toronto'', acc_to = ''Istanbul'',
         acc_date_time_from = ''2025-01-25'', acc_date_time_to = ''2025-02-10'',
         acc_adults = 2, acc_children = 1, acc_infants = 0\<rparr>),
      canada_chosen_flight = Some (2,
        \<lparr>acf_price = 200, acf_date_time_from = ''25-01-2022'',
         acf_date_time_to = ''10-02-2022''\<rparr>)\<rparr>"

definition scenario_flight :: Reservation where
  "scenario_flight = Flight (Canada scenario_canada)"

definition scenario_hotel :: Reservation where
  "scenario_hotel = Hotel (Hilton
     \<lparr>hilton_customer_info = Some (4,
        \<lparr>hc_country = ''Turkey'', hc_city = ''Istanbul'',
         hc_date_from = ''2025-01-25'', hc_date_to = ''2025-01-28'',
         hc_needed_rooms = 2, hc_adults = 2, hc_children = 1, hc_number_of_nights = 3\<rparr>),
      hilton_chosen_room = Some (5,
        \<lparr>hr_room_type = ''City View'', hr_available_number = 0, hr_price_per_night = 300,
         hr_from_date = ''29-01-2022'', hr_to_date = ''10-02-2022''\<rparr>)\<rparr>)"

definition scenario_itinerary :: Reservation where
  "scenario_itinerary = Itinerary [(0, scenario_flight), (3, scenario_hotel)]"

text \<open>
  A builder constructed when nothing else exists: its four adapters and their records take
  the addresses 0 to 11, and the next free address is 12.
\<close>

definition fresh_builder :: MakeReservation where
  "fresh_builder = fst (MakeReservation_ctor 0)"

section \<open>Properties\<close>

subsection \<open>Cost of an adapter\<close>

lemma int_plus_fits:
  "INT_MIN \<le> a + b \<Longrightarrow> a + b \<le> INT_MAX \<Longrightarrow> int_plus a b = Inr (a + b)"
  by (simp add: int_plus_def)

text \<open>
  Claim C1. A flight adapter whose criteria record holds \<open>a\<close> adults, \<open>c\<close> children and \<open>i\<close>
  infants and whose chosen flight has unit price \<open>p\<close> costs \<open>p * (a + c + i)\<close>; a hotel
  adapter whose criteria record holds \<open>nn\<close> nights and \<open>r\<close> rooms and whose chosen room has
  price \<open>q\<close> per night costs \<open>q * nn * r\<close>. The head count is an \<^verbatim>\<open>int\<close> sum in the code, so
  the formula holds for the flight adapters when \<open>a + c\<close> and \<open>a + c + i\<close> fit into an
  \<^verbatim>\<open>int\<close>; for every flight adapter it does not (see the counterexample below: 2147483647
  adults and one child overflow the sum). The hotel adapters convert each factor to
  \<^verbatim>\<open>double\<close> before multiplying, so their formula holds without a condition. The other
  fields of the records are arbitrary.
\<close>

theorem adapter_getCost_formula:
  assumes "INT_MIN \<le> a + c" and "a + c \<le> INT_MAX"
    and "INT_MIN \<le> a + c + i" and "a + c + i \<le> INT_MAX"
  shows "getCost (Flight (Canada
            \<lparr>canada_customer_info =
               Some (xa, ci\<lparr>acc_adults := a, acc_children := c, acc_infants := i\<rparr>),
             canada_chosen_flight = Some (ya, cf\<lparr>acf_price := p\<rparr>)\<rparr>))
          = Inr (p * of_int (a + c + i))
       \<and> getCost (Flight (Turkish
            \<lparr>turkish_customer_info =
               Some (xb, ti\<lparr>tc_adults := a, tc_children := c, tc_infants := i\<rparr>),
             turkish_chosen_flight = Some (yb, tf\<lparr>tf_cost := p\<rparr>)\<rparr>))
          = Inr (p * of_int (a + c + i))
       \<and> getCost (Hotel (Hilton
            \<lparr>hilton_customer_info =
               Some (xc, hi\<lparr>hc_number_of_nights := nn, hc_needed_rooms := r\<rparr>),
             hilton_chosen_room = Some (yc, hr\<lparr>hr_price_per_night := q\<rparr>)\<rparr>))
          = Inr (q * of_int nn * of_int r)
       \<and> getCost (Hotel (Marriott
            \<lparr>marriott_customer_info =
               Some (xd, mi\<lparr>mc_number_of_nights := nn, mc_needed_rooms := r\<rparr>),
             marriott_chosen_room = Some (yd, mr\<lparr>mr_price_per_night := q\<rparr>)\<rparr>))
          = Inr (q * of_int nn * of_int r)"
  using assms
  by (simp add: CanadaFlightReservation_getCost_def TurkishFlightReservation_getCost_def
      HiltonHotelReservation_getCost_def MarriottHotelReservation_getCost_def int_plus_fits)

theorem adapter_getCost_formula_witness:
  "INT_MIN \<le> 2 + 1 \<and> 2 + 1 \<le> INT_MAX \<and> INT_MIN \<le> 2 + 1 + 0 \<and> 2 + 1 + 0 \<le> INT_MAX
   \<and> getCost (Flight (Canada
        \<lparr>canada_customer_info =
           Some (1, AirCanadaCustomerInfo_default
                      \<lparr>acc_adults := 2, acc_children := 1, acc_infants := 0\<rparr>),
         canada_chosen_flight = Some (2, AirCanadaFlight_default\<lparr>acf_price := 200\<rparr>)\<rparr>))
       = Inr 600
   \<and> getCost (Hotel (Hilton
        \<lparr>hilton_customer_info =
           Some (4, HiltonCustomerInfo_default\<lparr>hc_number_of_nights := 3, hc_needed_rooms := 2\<rparr>),
         hilton_chosen_room = Some (5, HiltonRoom_default\<lparr>hr_price_per_night := 300\<rparr>)\<rparr>))
       = Inr 1800"
proof -
  have h: "INT_MIN \<le> 2 + 1" "2 + 1 \<le> INT_MAX" "INT_MIN \<le> 2 + 1 + 0" "2 + 1 + 0 \<le> INT_MAX"
    by (simp_all add: INT_MIN_def INT_MAX_def)
  show ?thesis
    using h adapter_getCost_formula [OF h, where ci = AirCanadaCustomerInfo_default
        and cf = AirCanadaFlight_default and p = 200 and xa = 1 and ya = 2
        and hi = HiltonCustomerInfo_default and hr = HiltonRoom_default
        and nn = 3 and r = 2 and q = 300 and xc = 4 and yc = 5]
    by simp
qed

text \<open>
  Without the condition the formula fails: with 2147483647 adults, one child and no infant
  at unit price 200 the \<^verbatim>\<open>int\<close> sum overflows, and the adapter does not return
  \<open>200 * (2147483647 + 1 + 0)\<close>.
\<close>

theorem adapter_getCost_overflow_counterexample:
  "getCost (Flight (Canada
      \<lparr>canada_customer_info =
         Some (1, AirCanadaCustomerInfo_default
                    \<lparr>acc_adults := 2147483647, acc_children := 1, acc_infants := 0\<rparr>),
       canada_chosen_flight = Some (2, AirCanadaFlight_default\<lparr>acf_price := 200\<rparr>)\<rparr>))
     = Inl SignedOverflow
   \<and> getCost (Flight (Canada
      \<lparr>canada_customer_info =
         Some (1, AirCanadaCustomerInfo_default
                    \<lparr>acc_adults := 2147483647, acc_children := 1, acc_infants := 0\<rparr>),
       canada_chosen_flight = Some (2, AirCanadaFlight_default\<lparr>acf_price := 200\<rparr>)\<rparr>))
     \<noteq> Inr (200 * of_int (2147483647 + 1 + 0))"
  by (simp add: CanadaFlightReservation_getCost_def int_plus_def INT_MIN_def INT_MAX_def)

subsection \<open>Cloning\<close>

lemma upt_split: "n \<le> m \<Longrightarrow> m \<le> k \<Longrightarrow> [n..<k] = [n..<m] @ [m..<k]"
  by (metis le_Suc_ex upt_add_eq_append)

lemma upt_three: "[Suc n, Suc (Suc n)] = [Suc n..<n + 3]"
  by (simp add: upt_rec)

lemma Canada_copy:
  "CanadaFlightReservation_copy_ctor
     \<lparr>canada_customer_info = Some (x, i), canada_chosen_flight = Some (y, f)\<rparr> n
   = Inr (\<lparr>canada_customer_info = Some (n, i), canada_chosen_flight = Some (Suc n, f)\<rparr>,
          Suc (Suc n))"
  by (simp add: CanadaFlightReservation_copy_ctor_def CanadaFlightReservation_default_def
      make_unique_def assign_pointee_def)

lemma Turkish_copy:
  "TurkishFlightReservation_copy_ctor
     \<lparr>turkish_customer_info = Some (x, i), turkish_chosen_flight = Some (y, f)\<rparr> n
   = Inr (\<lparr>turkish_customer_info = Some (n, i), turkish_chosen_flight = Some (Suc n, f)\<rparr>,
          Suc (Suc n))"
  by (simp add: TurkishFlightReservation_copy_ctor_def TurkishFlightReservation_default_def
      make_unique_def assign_pointee_def)

lemma Hilton_copy:
  "HiltonHotelReservation_copy_ctor
     \<lparr>hilton_customer_info = Some (x, i), hilton_chosen_room = Some (y, f)\<rparr> n
   = Inr (\<lparr>hilton_customer_info = Some (n, i), hilton_chosen_room = Some (Suc n, f)\<rparr>,
          Suc (Suc n))"
  by (simp add: HiltonHotelReservation_copy_ctor_def HiltonHotelReservation_default_def
      make_unique_def assign_pointee_def)

lemma Marriott_copy:
  "MarriottHotelReservation_copy_ctor
     \<lparr>marriott_customer_info = Some (x, i), marriott_chosen_room = Some (y, f)\<rparr> n
   = Inr (\<lparr>marriott_customer_info = Some (n, i), marriott_chosen_room = Some (Suc n, f)\<rparr>,
          Suc (Suc n))"
  by (simp add: MarriottHotelReservation_copy_ctor_def MarriottHotelReservation_default_def
      make_unique_def assign_pointee_def)

lemma clone_Canada:
  assumes "FlightReservation_never_null (Canada c)"
  shows "\<exists>c'. clone (Flight (Canada c)) n = Inr ((n, c'), n + 3)
           \<and> same_state c' (Flight (Canada c)) \<and> never_null c'
           \<and> owned c' = [Suc n..<n + 3]"
proof -
  obtain x i y f where
    c: "c = \<lparr>canada_customer_info = Some (x, i), canada_chosen_flight = Some (y, f)\<rparr>"
    using assms by (cases c) auto
  show ?thesis
    unfolding upt_three [symmetric]
    by (simp add: c Canada_copy CanadaFlightReservation_getCost_def same_state_def
        CanadaFlightReservation_getDetails_def ptr_addr_def)
qed

lemma clone_Turkish:
  assumes "FlightReservation_never_null (Turkish c)"
  shows "\<exists>c'. clone (Flight (Turkish c)) n = Inr ((n, c'), n + 3)
           \<and> same_state c' (Flight (Turkish c)) \<and> never_null c'
           \<and> owned c' = [Suc n..<n + 3]"
proof -
  obtain x i y f where
    c: "c = \<lparr>turkish_customer_info = Some (x, i), turkish_chosen_flight = Some (y, f)\<rparr>"
    using assms by (cases c) auto
  show ?thesis
    unfolding upt_three [symmetric]
    by (simp add: c Turkish_copy TurkishFlightReservation_getCost_def same_state_def
        TurkishFlightReservation_getDetails_def ptr_addr_def)
qed

lemma clone_Hilton:
  assumes "HotelReservation_never_null (Hilton c)"
  shows "\<exists>c'. clone (Hotel (Hilton c)) n = Inr ((n, c'), n + 3)
           \<and> same_state c' (Hotel (Hilton c)) \<and> never_null c'
           \<and> owned c' = [Suc n..<n + 3]"
proof -
  obtain x i y f where
    c: "c = \<lparr>hilton_customer_info = Some (x, i), hilton_chosen_room = Some (y, f)\<rparr>"
    using assms by (cases c) auto
  show ?thesis
    unfolding upt_three [symmetric]
    by (simp add: c Hilton_copy HiltonHotelReservation_getCost_def same_state_def
        HiltonHotelReservation_getDetails_def ptr_addr_def)
qed

lemma clone_Marriott:
  assumes "HotelReservation_never_null (Marriott c)"
  shows "\<exists>c'. clone (Hotel (Marriott c)) n = Inr ((n, c'), n + 3)
           \<and> same_state c' (Hotel (Marriott c)) \<and> never_null c'
           \<and> owned c' = [Suc n..<n + 3]"
proof -
  obtain x i y f where
    c: "c = \<lparr>marriott_customer_info = Some (x, i), marriott_chosen_room = Some (y, f)\<rparr>"
    using assms by (cases c) auto
  show ?thesis
    unfolding upt_three [symmetric]
    by (simp add: c Marriott_copy MarriottHotelReservation_getCost_def same_state_def
        MarriottHotelReservation_getDetails_def ptr_addr_def)
qed

lemma for_each_Sum_same:
  "list_all2 (\<lambda>c r. same_state (snd c) (snd r)) cs rs \<Longrightarrow>
   for_each_Sum cs acc = for_each_Sum rs acc"
  by (induction cs rs arbitrary: acc rule: list_all2_induct)
     (auto simp: same_state_def split: sum.splits)

lemma getDetails_each_same:
  "list_all2 (\<lambda>c r. same_state (snd c) (snd r)) cs rs \<Longrightarrow>
   getDetails_each cs = getDetails_each rs"
  by (induction cs rs rule: list_all2_induct)
     (auto simp: same_state_def split: sum.splits)

lemma owned_each_append: "owned_each (xs @ ys) = owned_each xs @ owned_each ys"
  by (induction xs) auto

lemma never_null_each_append:
  "never_null_each (xs @ ys) = (never_null_each xs \<and> never_null_each ys)"
  by (induction xs) auto

lemma same_state_Itinerary:
  assumes s: "list_all2 (\<lambda>c r. same_state (snd c) (snd r)) cs rs"
  shows "same_state (Itinerary cs) (Itinerary rs)"
proof -
  have len: "length cs = length rs" using s by (rule list_all2_lengthD)
  show ?thesis
    by (simp add: same_state_def for_each_Sum_same [OF s] getDetails_each_same [OF s] len
        cong: sum.case_cong)
qed

text \<open>
  The induction follows the mutual recursion of \<open>clone\<close> and the copy loop. A clone sits at
  the first free address and owns exactly the addresses handed out during the call.
\<close>

lemma clone_and_each:
  "never_null r \<Longrightarrow>
     \<exists>c n'. clone r n = Inr ((n, c), n') \<and> same_state c r \<and> never_null c
            \<and> n < n' \<and> owned c = [Suc n..<n']"
  "never_null_each rs \<Longrightarrow>
     \<exists>cs n'. addReservation_each rs this n = Inr (this @ cs, n')
            \<and> list_all2 (\<lambda>c r. same_state (snd c) (snd r)) cs rs \<and> never_null_each cs
            \<and> n \<le> n' \<and> owned_each cs = [n..<n']"
proof (induction r n and rs this n rule: clone_addReservation_each.induct)
  case (1 c n)
  then show ?case using clone_Canada [of c n] by auto
next
  case (2 t n)
  then show ?case using clone_Turkish [of t n] by auto
next
  case (3 h n)
  then show ?case using clone_Hilton [of h n] by auto
next
  case (4 m n)
  then show ?case using clone_Marriott [of m n] by auto
next
  case (5 Reservations n)
  then obtain cs n' where
    e: "addReservation_each Reservations [] (Suc n) = Inr (cs, n')"
    and s: "list_all2 (\<lambda>c r. same_state (snd c) (snd r)) cs Reservations"
    and nn: "never_null_each cs" and le: "Suc n \<le> n'" and ow: "owned_each cs = [Suc n..<n']"
    by fastforce
  show ?case
    using e nn le ow same_state_Itinerary [OF s] by simp
next
  case (6 this n)
  then show ?case by simp
next
  case (7 a reservation rest this n)
  from 7 obtain c n1 where
    cl: "clone reservation n = Inr ((n, c), n1)" and s: "same_state c reservation"
    and nn: "never_null c" and lt: "n < n1" and ow: "owned c = [Suc n..<n1]"
    by fastforce
  from 7(2) [OF cl refl] 7(3) obtain cs n' where
    e: "addReservation_each rest (this @ [(n, c)]) n1 = Inr ((this @ [(n, c)]) @ cs, n')"
    and ss: "list_all2 (\<lambda>c r. same_state (snd c) (snd r)) cs rest"
    and nns: "never_null_each cs" and le: "n1 \<le> n'" and ows: "owned_each cs = [n1..<n']"
    by fastforce
  have "[n..<n'] = n # [Suc n..<n1] @ [n1..<n']"
    using lt le by (simp add: upt_conv_Cons upt_split [of "Suc n" n1 n'])
  then show ?case
    using cl e s ss nn nns lt le ow ows
    by (intro exI [of _ "(n, c) # cs"] exI [of _ n']) simp
qed

text \<open>
  Claim C5. For every adapter and every Itinerary \<open>x\<close> that holds all its records,
  \<open>clone\<close> succeeds; the clone has the cost and the details of \<open>x\<close>; and it is a deep copy:
  the clone and every object it owns were allocated by the call (they occupy exactly the
  addresses from \<open>n\<close>, the first free one, up to the new first free one, each once), so no
  object of the clone is \<open>x\<close>, an object \<open>x\<close> owns, or any other object that existed before.
\<close>

theorem clone_is_deep_copy:
  assumes "never_null x"
  shows "\<exists>c n'. clone x n = Inr ((n, c), n')
           \<and> getCost c = getCost x \<and> getDetails c = getDetails x
           \<and> never_null c
           \<and> n # owned c = [n..<n']
           \<and> (list_all (\<lambda>b. b < n) (xa # owned x) \<longrightarrow>
                set (n # owned c) \<inter> set (xa # owned x) = {})"
proof -
  from clone_and_each(1) [OF assms, of n] obtain c n' where
    cl: "clone x n = Inr ((n, c), n')" and s: "same_state c x" and nn: "never_null c"
    and lt: "n < n'" and ow: "owned c = [Suc n..<n']"
    by blast
  have all: "n # owned c = [n..<n']"
    using lt ow by (simp add: upt_conv_Cons)
  have "list_all (\<lambda>b. b < n) (xa # owned x) \<longrightarrow> set (n # owned c) \<inter> set (xa # owned x) = {}"
    unfolding all by (auto simp: list_all_iff)
  then show ?thesis
    using cl s nn all unfolding same_state_def by blast
qed

lemma scenario_never_null:
  "never_null scenario_flight" "never_null scenario_hotel" "never_null scenario_itinerary"
  by (simp_all add: scenario_canada_def scenario_flight_def scenario_hotel_def scenario_itinerary_def)

lemma scenario_owned:
  "owned scenario_flight = [1, 2]" "owned scenario_hotel = [4, 5]"
  "owned scenario_itinerary = [0, 1, 2, 3, 4, 5]"
  by (simp_all add: scenario_canada_def scenario_flight_def scenario_hotel_def scenario_itinerary_def ptr_addr_def)

lemma scenario_getCost:
  "getCost scenario_flight = Inr 600" "getCost scenario_hotel = Inr 1800"
  "getCost scenario_itinerary = Inr 2400"
  by (simp_all add: scenario_canada_def scenario_flight_def scenario_hotel_def scenario_itinerary_def
      CanadaFlightReservation_getCost_def HiltonHotelReservation_getCost_def
      int_plus_def INT_MIN_def INT_MAX_def)

theorem clone_is_deep_copy_witness:
  "never_null scenario_itinerary
   \<and> list_all (\<lambda>b. b < 7) (6 # owned scenario_itinerary)
   \<and> (\<exists>c n'. clone scenario_itinerary 7 = Inr ((7, c), n')
         \<and> getCost c = Inr 2400 \<and> getDetails c = getDetails scenario_itinerary
         \<and> 7 # owned c = [7..<n']
         \<and> set (7 # owned c) \<inter> set (6 # owned scenario_itinerary) = {})"
proof -
  have below: "list_all (\<lambda>b. b < 7) (6 # owned scenario_itinerary)"
    by (simp add: scenario_owned)
  from clone_is_deep_copy [OF scenario_never_null(3), of 7 6] below
  show ?thesis
    using scenario_never_null(3) scenario_getCost(3) by auto
qed

subsection \<open>The Itinerary\<close>

lemma getCost_Inr_never_null:
  "getCost r = Inr v \<Longrightarrow> never_null r"
  "for_each_Sum rs acc = Inr v \<Longrightarrow> never_null_each rs"
proof (induction r and rs acc arbitrary: v and v rule: getCost_for_each_Sum.induct)
  case (1 c)
  then show ?case
    by (auto simp: CanadaFlightReservation_getCost_def split: option.splits)
next
  case (2 t)
  then show ?case
    by (auto simp: TurkishFlightReservation_getCost_def split: option.splits)
next
  case (3 h)
  then show ?case
    by (auto simp: HiltonHotelReservation_getCost_def split: option.splits)
next
  case (4 m)
  then show ?case
    by (auto simp: MarriottHotelReservation_getCost_def split: option.splits)
next
  case (5 Reservations)
  then show ?case by simp
next
  case (6 acc)
  then show ?case by simp
next
  case (7 a reservation rest acc)
  then show ?case by (auto split: sum.splits)
qed

lemma for_each_Sum_snoc:
  "for_each_Sum rs acc = Inr t \<Longrightarrow> getCost c = Inr v \<Longrightarrow>
   for_each_Sum (rs @ [(a, c)]) acc = Inr (t + v)"
  by (induction rs arbitrary: acc) (auto split: sum.splits)

text \<open>One round of the copy loop is one call of \<open>addReservation\<close>.\<close>

lemma addReservation_each_step:
  "addReservation_each (p # rest) this n =
     (case Itinerary_addReservation this (Some p) n of
        Inl e \<Rightarrow> Inl e
      | Inr (this', n') \<Rightarrow> addReservation_each rest this' n')"
  by (cases p) (simp add: Itinerary_addReservation_def split: sum.splits)

lemma addReservation_clone:
  assumes "never_null item"
  shows "\<exists>c n'. Itinerary_addReservation this (Some (ia, item)) n = Inr (this @ [(n, c)], n')
           \<and> same_state c item \<and> never_null c \<and> n < n' \<and> owned c = [Suc n..<n']"
  using clone_and_each(1) [OF assms, of n]
  by (auto simp: Itinerary_addReservation_def)

lemma add_all_cost:
  assumes "list_all2 (\<lambda>item v. \<exists>a r. item = Some (a, r) \<and> getCost r = Inr v) items vs"
    and "for_each_Sum this 0 = Inr t"
  shows "\<exists>this' n'. add_all this items n = Inr (this', n')
           \<and> length this' = length this + length items
           \<and> for_each_Sum this' 0 = Inr (t + sum_list vs)"
  using assms
proof (induction items vs arbitrary: this t n rule: list_all2_induct)
  case Nil
  then show ?case by simp
next
  case (Cons item items v vs)
  from Cons.hyps(1) obtain a r where item: "item = Some (a, r)" and cost: "getCost r = Inr v"
    by blast
  from addReservation_clone [OF getCost_Inr_never_null(1) [OF cost], of this a n]
  obtain c n1 where
    add: "Itinerary_addReservation this (Some (a, r)) n = Inr (this @ [(n, c)], n1)"
    and s: "same_state c r"
    by blast
  have "for_each_Sum (this @ [(n, c)]) 0 = Inr (t + v)"
    using Cons.prems s cost by (simp add: for_each_Sum_snoc same_state_def)
  from Cons.IH [OF this, of n1] obtain this' n' where
    "add_all (this @ [(n, c)]) items n1 = Inr (this', n')"
    "length this' = length (this @ [(n, c)]) + length items"
    "for_each_Sum this' 0 = Inr (t + v + sum_list vs)"
    by blast
  then show ?case
    using add by (simp add: item add.assoc)
qed

text \<open>
  Claim C2. When the reservations \<open>r1, ..., rn\<close> (with costs \<open>v1, ..., vn\<close>) are added one
  after the other to a fresh Itinerary, every call succeeds, the Itinerary has \<open>n\<close> elements
  and its cost is \<open>v1 + ... + vn\<close>. A fresh Itinerary and a cleared one are empty and cost 0.
  The cost is a function of the elements alone: nothing is cached.
\<close>

theorem itinerary_cost_is_sum:
  assumes "list_all2 (\<lambda>item v. \<exists>a r. item = Some (a, r) \<and> getCost r = Inr v) items vs"
  shows "(\<exists>this' n'. add_all Itinerary_default items n = Inr (this', n')
            \<and> length this' = length items
            \<and> Itinerary_getCost this' = Inr (sum_list vs))
         \<and> Itinerary_isEmpty Itinerary_default
         \<and> Itinerary_getCost Itinerary_default = Inr 0
         \<and> Itinerary_isEmpty (Itinerary_clear this)
         \<and> Itinerary_getCost (Itinerary_clear this) = Inr 0"
proof -
  have "for_each_Sum Itinerary_default 0 = Inr 0"
    by (simp add: Itinerary_default_def)
  from add_all_cost [OF assms this, of n]
  have "\<exists>this' n'. add_all Itinerary_default items n = Inr (this', n')
            \<and> length this' = length items
            \<and> Itinerary_getCost this' = Inr (sum_list vs)"
    by (simp add: Itinerary_getCost_def Itinerary_default_def)
  then show ?thesis
    by (simp add: Itinerary_getCost_def Itinerary_default_def Itinerary_isEmpty_def
        Itinerary_clear_def)
qed

theorem itinerary_cost_is_sum_witness:
  "list_all2 (\<lambda>item v. \<exists>a r. item = Some (a, r) \<and> getCost r = Inr v)
     [Some (0, scenario_flight), Some (3, scenario_hotel)] [600, 1800]
   \<and> (\<exists>this' n'. add_all Itinerary_default
                    [Some (0, scenario_flight), Some (3, scenario_hotel)] 7 = Inr (this', n')
         \<and> length this' = 2 \<and> Itinerary_getCost this' = Inr 2400)"
proof -
  have h: "list_all2 (\<lambda>item v. \<exists>a r. item = Some (a, r) \<and> getCost r = Inr v)
     [Some (0, scenario_flight), Some (3, scenario_hotel)] [600, 1800]"
    by (simp add: scenario_getCost)
  from itinerary_cost_is_sum [OF h, where n = 7 and this = "[]"] h
  show ?thesis by (auto simp del: add_all.simps)
qed

lemma exclusive_snoc:
  assumes "exclusive this n" and "n < n'" and "owned c = [Suc n..<n']"
  shows "exclusive (this @ [(n, c)]) n'"
    and "owned_each (this @ [(n, c)]) = owned_each this @ [n..<n']"
proof -
  show eq: "owned_each (this @ [(n, c)]) = owned_each this @ [n..<n']"
    using assms(2,3) by (simp add: owned_each_append upt_conv_Cons)
  show "exclusive (this @ [(n, c)]) n'"
    using assms(1,2) unfolding exclusive_def eq
    by (auto simp: list_all_iff)
qed

lemma apply_exclusive:
  assumes "list_all op_never_null ops" and "exclusive this n"
  shows "\<exists>this' n'. Itinerary_apply this ops n = Inr (this', n') \<and> n \<le> n'
           \<and> exclusive this' n'
           \<and> set (owned_each this') \<subseteq> set (owned_each this) \<union> {n..<n'}"
  using assms
proof (induction ops arbitrary: this n)
  case Nil
  then show ?case by simp
next
  case (Cons op ops)
  show ?case
  proof (cases op)
    case (AddReservation item)
    obtain ia r where item: "item = (ia, r)" by (cases item)
    have "never_null r" using Cons.prems(1) by (simp add: AddReservation item)
    from addReservation_clone [OF this, of "this" ia n] obtain c n1 where
      add: "Itinerary_addReservation this (Some (ia, r)) n = Inr (this @ [(n, c)], n1)"
      and lt: "n < n1" and ow: "owned c = [Suc n..<n1]"
      by blast
    note ex = exclusive_snoc [OF Cons.prems(2) lt ow]
    from Cons.IH [OF _ ex(1)] Cons.prems(1) obtain this' n' where
      run: "Itinerary_apply (this @ [(n, c)]) ops n1 = Inr (this', n')" and le: "n1 \<le> n'"
      and ex': "exclusive this' n'"
      and sub: "set (owned_each this') \<subseteq> set (owned_each (this @ [(n, c)])) \<union> {n1..<n'}"
      by auto
    have "set (owned_each this') \<subseteq> set (owned_each this) \<union> {n..<n'}"
      using sub lt le unfolding ex(2) by auto
    then show ?thesis
      using run le lt ex' add by (auto simp: AddReservation item)
  next
    case Clear
    have "exclusive (Itinerary_clear this) n"
      by (simp add: Itinerary_clear_def exclusive_def)
    from Cons.IH [OF _ this] Cons.prems(1) obtain this' n' where
      "Itinerary_apply (Itinerary_clear this) ops n = Inr (this', n')" "n \<le> n'"
      "exclusive this' n'"
      "set (owned_each this') \<subseteq> set (owned_each (Itinerary_clear this)) \<union> {n..<n'}"
      by auto
    then show ?thesis
      by (auto simp: Clear Itinerary_clear_def)
  qed
qed

text \<open>
  Claim C6. \<open>addReservation\<close> appends a clone of the item: the new element has the item's
  cost and details, and it and all it owns are objects allocated by the call, so none of
  them is the item or an object the item owns (which existed before the call); nothing
  done to the item afterwards reaches the itinerary. Along every sequence of
  \<open>addReservation\<close> and \<open>clear\<close>, starting from an itinerary that owns its elements
  exclusively, every call succeeds, the itinerary still owns its elements exclusively, and
  each object it owns was owned at the start or allocated during the run.
\<close>

theorem addReservation_owns_a_clone:
  "(never_null item \<longrightarrow>
      (\<exists>c n'. Itinerary_addReservation this (Some (ia, item)) n = Inr (this @ [(n, c)], n')
         \<and> getCost c = getCost item \<and> getDetails c = getDetails item
         \<and> n # owned c = [n..<n']
         \<and> (list_all (\<lambda>b. b < n) (ia # owned item) \<longrightarrow>
              set (n # owned c) \<inter> set (ia # owned item) = {})))
   \<and> (list_all op_never_null ops \<and> exclusive this n \<longrightarrow>
      (\<exists>this' n'. Itinerary_apply this ops n = Inr (this', n') \<and> n \<le> n'
         \<and> exclusive this' n'
         \<and> set (owned_each this') \<subseteq> set (owned_each this) \<union> {n..<n'}))"
proof (intro conjI impI)
  assume "never_null item"
  from addReservation_clone [OF this, of "this" ia n] obtain c n' where
    add: "Itinerary_addReservation this (Some (ia, item)) n = Inr (this @ [(n, c)], n')"
    and s: "same_state c item" and lt: "n < n'" and ow: "owned c = [Suc n..<n']"
    by blast
  have all: "n # owned c = [n..<n']"
    using lt ow by (simp add: upt_conv_Cons)
  have "list_all (\<lambda>b. b < n) (ia # owned item) \<longrightarrow>
          set (n # owned c) \<inter> set (ia # owned item) = {}"
    unfolding all by (auto simp: list_all_iff)
  then show "\<exists>c n'. Itinerary_addReservation this (Some (ia, item)) n = Inr (this @ [(n, c)], n')
         \<and> getCost c = getCost item \<and> getDetails c = getDetails item
         \<and> n # owned c = [n..<n']
         \<and> (list_all (\<lambda>b. b < n) (ia # owned item) \<longrightarrow>
              set (n # owned c) \<inter> set (ia # owned item) = {})"
    using add s all unfolding same_state_def by blast
next
  assume "list_all op_never_null ops \<and> exclusive this n"
  then show "\<exists>this' n'. Itinerary_apply this ops n = Inr (this', n') \<and> n \<le> n'
         \<and> exclusive this' n'
         \<and> set (owned_each this') \<subseteq> set (owned_each this) \<union> {n..<n'}"
    using apply_exclusive by blast
qed

theorem addReservation_owns_a_clone_witness:
  "never_null scenario_hotel
   \<and> list_all (\<lambda>b. b < 7) (3 # owned scenario_hotel)
   \<and> list_all op_never_null [AddReservation (0, scenario_flight), Clear,
                                AddReservation (3, scenario_hotel)]
   \<and> exclusive [(0, scenario_flight)] 7
   \<and> (\<exists>c n'. Itinerary_addReservation [(0, scenario_flight)] (Some (3, scenario_hotel)) 7
                = Inr ([(0, scenario_flight)] @ [(7, c)], n')
         \<and> getCost c = Inr 1800
         \<and> set (7 # owned c) \<inter> set (3 # owned scenario_hotel) = {})
   \<and> (\<exists>this' n'. Itinerary_apply [(0, scenario_flight)]
                     [AddReservation (0, scenario_flight), Clear,
                      AddReservation (3, scenario_hotel)] 7 = Inr (this', n')
         \<and> exclusive this' n')"
proof -
  have a: "never_null scenario_hotel"
    by (rule scenario_never_null)
  have b: "list_all (\<lambda>b. b < 7) (3 # owned scenario_hotel)"
    by (simp add: scenario_owned)
  have c: "list_all op_never_null [AddReservation (0, scenario_flight), Clear,
                                AddReservation (3, scenario_hotel)]"
    by (simp add: scenario_never_null)
  have d: "exclusive [(0, scenario_flight)] 7"
    by (simp add: exclusive_def scenario_owned)
  from addReservation_owns_a_clone [where item = scenario_hotel and ia = 3 and n = 7
      and this = "[(0, scenario_flight)]"
      and ops = "[AddReservation (0, scenario_flight), Clear, AddReservation (3, scenario_hotel)]"]
  show ?thesis
    using a b c d scenario_getCost(2)
    by (auto simp del: Itinerary_apply.simps)
qed

subsection \<open>Merging the offers of the adapters\<close>

lemma Canada_push_offers:
  "CanadaFlightReservation_push_offers offers flights =
     flights @ map (\<lambda>f. \<lparr>ffi_airline = ''Canada'', ffi_price = acf_price f,
                          ffi_from_date = acf_date_time_from f,
                          ffi_to_date = acf_date_time_to f\<rparr>) offers"
  by (induction offers arbitrary: flights) simp_all

lemma Turkish_push_offers:
  "TurkishFlightReservation_push_offers offers flights =
     flights @ map (\<lambda>f. \<lparr>ffi_airline = ''Turkish'', ffi_price = tf_cost f,
                          ffi_from_date = tf_datetime_from f,
                          ffi_to_date = tf_datetime_to f\<rparr>) offers"
  by (induction offers arbitrary: flights) simp_all

lemma Hilton_push_offers:
  "HiltonHotelReservation_push_offers offers rooms =
     rooms @ map (\<lambda>r. \<lparr>fri_hotel = ''Hilton'', fri_from_date = hr_from_date r,
                        fri_to_date = hr_to_date r, fri_view_type = hr_room_type r,
                        fri_how_many = hr_available_number r,
                        fri_price_for_night = hr_price_per_night r\<rparr>) offers"
  by (induction offers arbitrary: rooms) simp_all

lemma Marriott_push_offers:
  "MarriottHotelReservation_push_offers offers rooms =
     rooms @ map (\<lambda>r. \<lparr>fri_hotel = ''Marriott'', fri_from_date = mr_date_from r,
                        fri_to_date = mr_date_to r, fri_view_type = mr_room_type r,
                        fri_how_many = mr_available_number r,
                        fri_price_for_night = mr_price_per_night r\<rparr>) offers"
  by (induction offers arbitrary: rooms) simp_all

lemma FlightReservation_appends:
  "\<exists>new. FlightReservation_getAvailableFlights airport flights = flights @ new
     \<and> FlightReservation_getAvailableFlights airport [] = new
     \<and> list_all (\<lambda>f. ffi_airline f \<in> {''Canada'', ''Turkish''}) new"
  by (cases airport)
     (simp_all add: CanadaFlightReservation_getAvailableFlights_def Canada_push_offers
        TurkishFlightReservation_getAvailableFlights_def Turkish_push_offers list_all_iff)

lemma HotelReservation_appends:
  "HotelReservation_getAvailableRooms hotel rooms = Inr res \<Longrightarrow>
     \<exists>new. res = rooms @ new
       \<and> HotelReservation_getAvailableRooms hotel [] = Inr new
       \<and> list_all (\<lambda>r. fri_hotel r \<in> {''Hilton'', ''Marriott''}) new"
  by (cases hotel)
     (auto simp: HiltonHotelReservation_getAvailableRooms_def Hilton_push_offers
        MarriottHotelReservation_getAvailableRooms_def Marriott_push_offers list_all_iff
        split: option.splits)

text \<open>The number of offers an adapter contributes: what it pushes into an empty vector.\<close>

lemma getAvailableFlights_each_appends:
  "\<exists>new. getAvailableFlights_each airports flights = flights @ new
     \<and> length new = (\<Sum>p\<leftarrow>airports. length (FlightReservation_getAvailableFlights (snd p) []))
     \<and> list_all (\<lambda>f. ffi_airline f \<in> {''Canada'', ''Turkish''}) new"
proof (induction airports arbitrary: flights)
  case Nil
  then show ?case by simp
next
  case (Cons p airports)
  obtain a airport where p: "p = (a, airport)" by (cases p)
  from FlightReservation_appends [of airport flights] obtain new1 where
    one: "FlightReservation_getAvailableFlights airport flights = flights @ new1"
    "FlightReservation_getAvailableFlights airport [] = new1"
    "list_all (\<lambda>f. ffi_airline f \<in> {''Canada'', ''Turkish''}) new1"
    by blast
  from Cons.IH [of "flights @ new1"] obtain new2 where
    two: "getAvailableFlights_each airports (flights @ new1) = (flights @ new1) @ new2"
    "length new2 = (\<Sum>p\<leftarrow>airports. length (FlightReservation_getAvailableFlights (snd p) []))"
    "list_all (\<lambda>f. ffi_airline f \<in> {''Canada'', ''Turkish''}) new2"
    by blast
  show ?case
    using one two by (intro exI [of _ "new1 @ new2"]) (simp add: p)
qed

lemma getAvailableRooms_each_appends:
  "getAvailableRooms_each hotels rooms = Inr res \<Longrightarrow>
   \<exists>new. res = rooms @ new
     \<and> length new = (\<Sum>p\<leftarrow>hotels. case HotelReservation_getAvailableRooms (snd p) [] of
                                     Inl e \<Rightarrow> 0 | Inr l \<Rightarrow> length l)
     \<and> list_all (\<lambda>r. fri_hotel r \<in> {''Hilton'', ''Marriott''}) new"
proof (induction hotels arbitrary: rooms)
  case Nil
  then show ?case by simp
next
  case (Cons p hotels)
  obtain a hotel where p: "p = (a, hotel)" by (cases p)
  from Cons.prems obtain res1 where
    r1: "HotelReservation_getAvailableRooms hotel rooms = Inr res1"
    and r2: "getAvailableRooms_each hotels res1 = Inr res"
    by (auto simp: p split: sum.splits)
  from HotelReservation_appends [OF r1] obtain new1 where
    one: "res1 = rooms @ new1" "HotelReservation_getAvailableRooms hotel [] = Inr new1"
    "list_all (\<lambda>r. fri_hotel r \<in> {''Hilton'', ''Marriott''}) new1"
    by blast
  from Cons.IH [OF r2] obtain new2 where
    two: "res = res1 @ new2"
    "length new2 = (\<Sum>p\<leftarrow>hotels. case HotelReservation_getAvailableRooms (snd p) [] of
                                     Inl e \<Rightarrow> 0 | Inr l \<Rightarrow> length l)"
    "list_all (\<lambda>r. fri_hotel r \<in> {''Hilton'', ''Marriott''}) new2"
    by blast
  show ?case
    using one two by (intro exI [of _ "new1 @ new2"]) (simp add: p)
qed

text \<open>
  Claim C9. An adapter's \<open>getAvailableFlights\<close> or \<open>getAvailableRooms\<close> returns the caller's
  collection with one record per offer of its vendor appended, each tagged with the adapter's
  brand; nothing that was in the collection is removed or changed. Run over any list of
  registered adapters, the shared collection grows by the sum of what the adapters
  contribute. (A hotel adapter reads its criteria record, so it must hold one.)
\<close>

theorem getAvailable_appends_tagged:
  "(\<exists>new. CanadaFlightReservation_getAvailableFlights c flights = flights @ new
        \<and> length new = length AirCanadaOnlineAPI_getFlights
        \<and> list_all (\<lambda>f. ffi_airline f = ''Canada'') new)
   \<and> (\<exists>new. TurkishFlightReservation_getAvailableFlights t flights = flights @ new
        \<and> length new = length TurkishAirlineOnlineAPI_getAvailableFlights
        \<and> list_all (\<lambda>f. ffi_airline f = ''Turkish'') new)
   \<and> (hilton_customer_info h = Some (ha, hi) \<longrightarrow>
        (\<exists>new. HiltonHotelReservation_getAvailableRooms h rooms = Inr (rooms @ new)
           \<and> length new = length (HiltonHotelAPI_searchRooms hi)
           \<and> list_all (\<lambda>r. fri_hotel r = ''Hilton'') new))
   \<and> (marriott_customer_info m = Some (ma, mi) \<longrightarrow>
        (\<exists>new. MarriottHotelReservation_getAvailableRooms m rooms = Inr (rooms @ new)
           \<and> length new = length (MarriottHotelAPI_findRooms mi)
           \<and> list_all (\<lambda>r. fri_hotel r = ''Marriott'') new))
   \<and> (\<exists>new. getAvailableFlights_each airports flights = flights @ new
        \<and> length new
            = (\<Sum>p\<leftarrow>airports. length (FlightReservation_getAvailableFlights (snd p) [])))
   \<and> (getAvailableRooms_each hotels rooms = Inr res \<longrightarrow>
        (\<exists>new. res = rooms @ new
           \<and> length new
               = (\<Sum>p\<leftarrow>hotels. case HotelReservation_getAvailableRooms (snd p) [] of
                                   Inl e \<Rightarrow> 0 | Inr l \<Rightarrow> length l)))"
proof (intro conjI impI)
  show "\<exists>new. CanadaFlightReservation_getAvailableFlights c flights = flights @ new
        \<and> length new = length AirCanadaOnlineAPI_getFlights
        \<and> list_all (\<lambda>f. ffi_airline f = ''Canada'') new"
    by (simp add: CanadaFlightReservation_getAvailableFlights_def Canada_push_offers
        list_all_iff)
  show "\<exists>new. TurkishFlightReservation_getAvailableFlights t flights = flights @ new
        \<and> length new = length TurkishAirlineOnlineAPI_getAvailableFlights
        \<and> list_all (\<lambda>f. ffi_airline f = ''Turkish'') new"
    by (simp add: TurkishFlightReservation_getAvailableFlights_def Turkish_push_offers
        list_all_iff)
  show "\<exists>new. getAvailableFlights_each airports flights = flights @ new
        \<and> length new
            = (\<Sum>p\<leftarrow>airports. length (FlightReservation_getAvailableFlights (snd p) []))"
    using getAvailableFlights_each_appends [of airports flights] by blast
next
  assume "hilton_customer_info h = Some (ha, hi)"
  then show "\<exists>new. HiltonHotelReservation_getAvailableRooms h rooms = Inr (rooms @ new)
           \<and> length new = length (HiltonHotelAPI_searchRooms hi)
           \<and> list_all (\<lambda>r. fri_hotel r = ''Hilton'') new"
    by (simp add: HiltonHotelReservation_getAvailableRooms_def Hilton_push_offers list_all_iff)
next
  assume "marriott_customer_info m = Some (ma, mi)"
  then show "\<exists>new. MarriottHotelReservation_getAvailableRooms m rooms = Inr (rooms @ new)
           \<and> length new = length (MarriottHotelAPI_findRooms mi)
           \<and> list_all (\<lambda>r. fri_hotel r = ''Marriott'') new"
    by (simp add: MarriottHotelReservation_getAvailableRooms_def Marriott_push_offers
        list_all_iff)
next
  assume "getAvailableRooms_each hotels rooms = Inr res"
  from getAvailableRooms_each_appends [OF this]
  show "\<exists>new. res = rooms @ new
           \<and> length new
               = (\<Sum>p\<leftarrow>hotels. case HotelReservation_getAvailableRooms (snd p) [] of
                                   Inl e \<Rightarrow> 0 | Inr l \<Rightarrow> length l)"
    by blast
qed

lemma fresh_builder_Airports:
  "Airports fresh_builder =
     [(0, Canada \<lparr>canada_customer_info = Some (1, AirCanadaCustomerInfo_default),
                   canada_chosen_flight = Some (2, AirCanadaFlight_default)\<rparr>),
      (3, Turkish \<lparr>turkish_customer_info = Some (4, TurkishCustomerInfo_default),
                    turkish_chosen_flight = Some (5, TurkishFlight_default)\<rparr>)]"
  by (simp add: fresh_builder_def MakeReservation_ctor_def make_unique_def
      CanadaFlightReservation_default_def TurkishFlightReservation_default_def
      HiltonHotelReservation_default_def MarriottHotelReservation_default_def)

lemma fresh_builder_Hotels:
  "Hotels fresh_builder =
     [(6, Hilton \<lparr>hilton_customer_info = Some (7, HiltonCustomerInfo_default),
                   hilton_chosen_room = Some (8, HiltonRoom_default)\<rparr>),
      (9, Marriott \<lparr>marriott_customer_info = Some (10, MarriottCustomerInfo_default),
                     marriott_chosen_room = Some (11, MarriottFoundRoom_default)\<rparr>)]"
  by (simp add: fresh_builder_def MakeReservation_ctor_def make_unique_def
      CanadaFlightReservation_default_def TurkishFlightReservation_default_def
      HiltonHotelReservation_default_def MarriottHotelReservation_default_def)

lemma fresh_builder_flights:
  "getAvailableFlights_each (Airports fresh_builder) [] =
     [\<lparr>ffi_airline = ''Canada'', ffi_price = 200,
       ffi_from_date = ''25-01-2022'', ffi_to_date = ''10-02-2022''\<rparr>,
      \<lparr>ffi_airline = ''Canada'', ffi_price = 250,
       ffi_from_date = ''29-01-2022'', ffi_to_date = ''10-02-2022''\<rparr>,
      \<lparr>ffi_airline = ''Turkish'', ffi_price = 200,
       ffi_from_date = ''25-01-2022'', ffi_to_date = ''10-02-2022''\<rparr>,
      \<lparr>ffi_airline = ''Turkish'', ffi_price = 250,
       ffi_from_date = ''29-01-2022'', ffi_to_date = ''10-02-2022''\<rparr>]"
  by (simp add: fresh_builder_Airports CanadaFlightReservation_getAvailableFlights_def
      TurkishFlightReservation_getAvailableFlights_def AirCanadaOnlineAPI_getFlights_def
      TurkishAirlineOnlineAPI_getAvailableFlights_def)

lemma fresh_builder_rooms:
  "getAvailableRooms_each (Hotels fresh_builder) [] =
     Inr [\<lparr>fri_hotel = ''Hilton'', fri_from_date = ''29-01-2022'',
           fri_to_date = ''10-02-2022'', fri_view_type = ''Interior View'',
           fri_how_many = 6, fri_price_for_night = 200\<rparr>,
          \<lparr>fri_hotel = ''Hilton'', fri_from_date = ''29-01-2022'',
           fri_to_date = ''10-02-2022'', fri_view_type = ''City View'',
           fri_how_many = 3, fri_price_for_night = 300\<rparr>,
          \<lparr>fri_hotel = ''Hilton'', fri_from_date = ''29-01-2022'',
           fri_to_date = ''10-02-2022'', fri_view_type = ''Deluxe View'',
           fri_how_many = 8, fri_price_for_night = 500\<rparr>,
          \<lparr>fri_hotel = ''Marriott'', fri_from_date = ''29-01-2022'',
           fri_to_date = ''10-02-2022'', fri_view_type = ''City View'',
           fri_how_many = 8, fri_price_for_night = 320\<rparr>,
          \<lparr>fri_hotel = ''Marriott'', fri_from_date = ''29-01-2022'',
           fri_to_date = ''10-02-2022'', fri_view_type = ''Interior View'',
           fri_how_many = 8, fri_price_for_night = 220\<rparr>,
          \<lparr>fri_hotel = ''Marriott'', fri_from_date = ''29-01-2022'',
           fri_to_date = ''10-02-2022'', fri_view_type = ''Private View'',
           fri_how_many = 5, fri_price_for_night = 600\<rparr>]"
  by (simp add: fresh_builder_Hotels HiltonHotelReservation_getAvailableRooms_def
      MarriottHotelReservation_getAvailableRooms_def HiltonHotelAPI_searchRooms_def
      MarriottHotelAPI_findRooms_def)

theorem getAvailable_appends_tagged_witness:
  "hilton_customer_info
       \<lparr>hilton_customer_info = Some (7, HiltonCustomerInfo_default),
        hilton_chosen_room = Some (8, HiltonRoom_default)\<rparr>
     = Some (7, HiltonCustomerInfo_default)
   \<and> marriott_customer_info
       \<lparr>marriott_customer_info = Some (10, MarriottCustomerInfo_default),
        marriott_chosen_room = Some (11, MarriottFoundRoom_default)\<rparr>
     = Some (10, MarriottCustomerInfo_default)
   \<and> (\<exists>res. getAvailableRooms_each (Hotels fresh_builder) [] = Inr res \<and> length res = 6)
   \<and> length (getAvailableFlights_each (Airports fresh_builder) []) = 4
   \<and> (\<exists>new. HiltonHotelReservation_getAvailableRooms
               \<lparr>hilton_customer_info = Some (7, HiltonCustomerInfo_default),
                hilton_chosen_room = Some (8, HiltonRoom_default)\<rparr> [] = Inr new
          \<and> length new = 3 \<and> list_all (\<lambda>r. fri_hotel r = ''Hilton'') new)"
proof -
  obtain res where r: "getAvailableRooms_each (Hotels fresh_builder) [] = Inr res"
    using fresh_builder_rooms by blast
  have n: "(\<Sum>p\<leftarrow>Hotels fresh_builder. case HotelReservation_getAvailableRooms (snd p) [] of
                                   Inl e \<Rightarrow> 0 | Inr l \<Rightarrow> length l) = 6"
    by (simp add: fresh_builder_Hotels HiltonHotelReservation_getAvailableRooms_def
      MarriottHotelReservation_getAvailableRooms_def HiltonHotelAPI_searchRooms_def
      MarriottHotelAPI_findRooms_def)
  have k: "length (HiltonHotelAPI_searchRooms HiltonCustomerInfo_default) = 3"
    by (simp add: HiltonHotelAPI_searchRooms_def)
  from getAvailable_appends_tagged [where
      h = "\<lparr>hilton_customer_info = Some (7, HiltonCustomerInfo_default),
             hilton_chosen_room = Some (8, HiltonRoom_default)\<rparr>"
      and ha = 7 and hi = HiltonCustomerInfo_default
      and m = "\<lparr>marriott_customer_info = Some (10, MarriottCustomerInfo_default),
                 marriott_chosen_room = Some (11, MarriottFoundRoom_default)\<rparr>"
      and ma = 10 and mi = MarriottCustomerInfo_default
      and hotels = "Hotels fresh_builder" and rooms = "[]" and res = res
      and airports = "Airports fresh_builder" and flights = "[]"
      and c = "\<lparr>canada_customer_info = None, canada_chosen_flight = None\<rparr>"
      and t = "\<lparr>turkish_customer_info = None, turkish_chosen_flight = None\<rparr>"]
  show ?thesis
    using r n k by (auto simp: fresh_builder_flights)
qed

subsection \<open>The builder workflow\<close>

text \<open>
  Claim C10. For a brand that is none of \<open>Canada\<close>, \<open>Turkish\<close>, \<open>Hilton\<close>, \<open>Marriott\<close> the
  factory returns the null pointer and allocates nothing.
\<close>

theorem ReservationFactory_unmatched:
  assumes "brand \<notin> {''Canada'', ''Turkish'', ''Hilton'', ''Marriott''}"
  shows "ReservationFactory this brand n = Inr (None, n)"
  using assms by (simp add: ReservationFactory_def)

theorem ReservationFactory_unmatched_witness:
  "''canada'' \<notin> {''Canada'', ''Turkish'', ''Hilton'', ''Marriott''}
   \<and> ReservationFactory fresh_builder ''canada'' 12 = Inr (None, 12)"
proof -
  have h: "''canada'' \<notin> {''Canada'', ''Turkish'', ''Hilton'', ''Marriott''}"
    by simp
  from ReservationFactory_unmatched [OF h, of fresh_builder 12] h
  show ?thesis by simp
qed

lemma ReservationFactory_matched:
  "ReservationFactory this brand n = Inr (Some (a, r), n') \<Longrightarrow>
     (brand = ''Canada'' \<and> (\<exists>c. r = Flight (Canada c)))
   \<or> (brand = ''Turkish'' \<and> (\<exists>t. r = Flight (Turkish t)))
   \<or> (brand = ''Hilton'' \<and> (\<exists>h. r = Hotel (Hilton h)))
   \<or> (brand = ''Marriott'' \<and> (\<exists>m. r = Hotel (Marriott m)))"
  by (auto simp: ReservationFactory_def split: if_splits sum.splits)

lemma Hilton_ctor_getCost:
  "HiltonHotelReservation_ctor (Some (x, ci)) (Some (y, ri)) n = Inr (h, n') \<Longrightarrow>
   HiltonHotelReservation_getCost h =
     Inr (fri_price_for_night ri * of_int (ci_number_of_nights ci) * of_int (ci_needed_rooms ci))"
  by (auto simp: HiltonHotelReservation_ctor_def HiltonHotelReservation_default_def
      make_unique_def HiltonHotelReservation_setCustomerInfo_def
      HiltonHotelReservation_setChosenRoomInfo_def HiltonHotelReservation_getCost_def)

lemma Marriott_ctor_getCost:
  "MarriottHotelReservation_ctor (Some (x, ci)) (Some (y, ri)) n = Inr (m, n') \<Longrightarrow>
   MarriottHotelReservation_getCost m =
     Inr (fri_price_for_night ri * of_int (ci_number_of_nights ci) * of_int (ci_needed_rooms ci))"
  by (auto simp: MarriottHotelReservation_ctor_def MarriottHotelReservation_default_def
      make_unique_def MarriottHotelReservation_setCustomerInfo_def
      MarriottHotelReservation_setChosenRoomInfo_def MarriottHotelReservation_getCost_def)

lemma ReservationFactory_room_cost:
  assumes "ReservationFactory this brand n = Inr (Some (a, r), n')"
    and "brand \<in> {''Hilton'', ''Marriott''}"
    and "customer_info this = Some (x, ci)" and "chosen_room this = Some (y, ri)"
  shows "getCost r =
     Inr (fri_price_for_night ri * of_int (ci_number_of_nights ci) * of_int (ci_needed_rooms ci))"
  using assms
  by (auto simp: ReservationFactory_def Hilton_ctor_getCost Marriott_ctor_getCost
      split: sum.splits)

text \<open>
  Claim C4. Whatever the user types and whichever offer is chosen, a reservation returned
  by \<open>reservingRoom\<close> costs 0: the workflow value-initialises the criteria record, never
  writes \<open>needed_rooms\<close>, and the adapter multiplies by it.
\<close>

theorem reservingRoom_cost_zero:
  assumes "reservingRoom this country_in city_in from_date_in to_date_in adults_in children_in
             nights_in choice n = Inr (Some (a, r), this', n')"
  shows "getCost r = Inr 0"
proof -
  let ?ci = "CustomerInfo_default\<lparr>ci_country := country_in, ci_city := city_in,
               ci_from_date := from_date_in, ci_to_date := to_date_in,
               ci_adults := adults_in, ci_children := children_in,
               ci_number_of_nights := nights_in\<rparr>"
  let ?this1 = "this\<lparr>customer_info := Some (n, ?ci),
                     chosen_room := Some (Suc n, FoundRoomInfo_default)\<rparr>"
  obtain rooms where rooms: "getAvailableRooms_each (Hotels this) [] = Inr rooms"
    using assms
    by (auto simp: reservingRoom_def make_unique_def Let_def split: sum.splits)
  let ?k = "nat (choice - 1)"
  let ?this2 = "?this1\<lparr>chosen_room := Some (Suc n, rooms ! ?k)\<rparr>"
  from assms rooms have range: "0 \<le> choice - 1" "choice - 1 < int (length rooms)"
    and fac: "ReservationFactory ?this2 (fri_hotel (rooms ! ?k)) (Suc (Suc n))
                = Inr (Some (a, r), n')"
    by (auto simp: reservingRoom_def make_unique_def Let_def split: sum.splits if_splits)
  from getAvailableRooms_each_appends [OF rooms]
  have "list_all (\<lambda>r. fri_hotel r \<in> {''Hilton'', ''Marriott''}) rooms"
    by auto
  moreover have "?k < length rooms" using range by linarith
  ultimately have brand: "fri_hotel (rooms ! ?k) \<in> {''Hilton'', ''Marriott''}"
    by (simp add: list_all_length)
  have "getCost r = Inr (fri_price_for_night (rooms ! ?k) * of_int (ci_number_of_nights ?ci)
                          * of_int (ci_needed_rooms ?ci))"
    by (rule ReservationFactory_room_cost [OF fac brand]) simp_all
  then show ?thesis
    by (simp add: CustomerInfo_default_def)
qed

theorem reservingRoom_cost_zero_witness:
  "\<exists>h this' n'.
     reservingRoom fresh_builder ''Turkey'' ''Istanbul'' ''2025-01-25'' ''2025-01-28'' 2 1 3 2 12
       = Inr (Some (14, Hotel (Hilton h)), this', n')
     \<and> map_option (hr_price_per_night \<circ> snd) (hilton_chosen_room h) = Some 300
     \<and> map_option (hc_number_of_nights \<circ> snd) (hilton_customer_info h) = Some 3
     \<and> getCost (Hotel (Hilton h)) = Inr 0"
proof -
  have "\<exists>h this' n'.
     reservingRoom fresh_builder ''Turkey'' ''Istanbul'' ''2025-01-25'' ''2025-01-28'' 2 1 3 2 12
       = Inr (Some (14, Hotel (Hilton h)), this', n')
     \<and> map_option (hr_price_per_night \<circ> snd) (hilton_chosen_room h) = Some 300
     \<and> map_option (hc_number_of_nights \<circ> snd) (hilton_customer_info h) = Some 3"
    by (simp add: reservingRoom_def make_unique_def Let_def fresh_builder_rooms
        ReservationFactory_def HiltonHotelReservation_ctor_def
        HiltonHotelReservation_default_def HiltonHotelReservation_setCustomerInfo_def
        HiltonHotelReservation_setChosenRoomInfo_def CustomerInfo_default_def
        FoundRoomInfo_default_def)
  then obtain h this' n' where
    run: "reservingRoom fresh_builder ''Turkey'' ''Istanbul'' ''2025-01-25'' ''2025-01-28''
            2 1 3 2 12 = Inr (Some (14, Hotel (Hilton h)), this', n')"
    and rest: "map_option (hr_price_per_night \<circ> snd) (hilton_chosen_room h) = Some 300"
      "map_option (hc_number_of_nights \<circ> snd) (hilton_customer_info h) = Some 3"
    by blast
  from reservingRoom_cost_zero [OF run] run rest
  show ?thesis by blast
qed

text \<open>
  \<open>reservingFlight\<close> stores the passenger counts as typed. Typed 2147483647 adults and one
  child and choosing the first offer, it returns a reservation whose head count overflows
  the \<^verbatim>\<open>int\<close> sum in \<open>getCost\<close>.
\<close>

lemma reservingFlight_builds_overflowing_adapter:
  "\<exists>a r this' n'.
     reservingFlight fresh_builder ''Toronto'' ''2025-01-25'' ''Istanbul'' ''2025-02-10''
         2147483647 1 0 1 12 = Inr (Some (a, r), this', n')
     \<and> getCost r = Inl SignedOverflow"
  by (simp add: reservingFlight_def make_unique_def Let_def fresh_builder_flights
      ReservationFactory_def CanadaFlightReservation_ctor_def
      CanadaFlightReservation_default_def CanadaFlightReservation_setCustomerInfo_def
      CanadaFlightReservation_setChosenFlight_def CanadaFlightReservation_getCost_def
      PassengerInfo_default_def FoundFlightInfo_default_def
      int_plus_def INT_MIN_def INT_MAX_def)

lemma reservingFlight_abort:
  assumes "choice = - 1 \<or> choice > int (length (getAvailableFlights_each (Airports this) []))"
  shows "\<exists>this'. reservingFlight this from_in from_date_in to_in to_date_in adults_in
                    children_in infants_in choice n = Inr (None, this', Suc (Suc n))"
  using assms by (auto simp: reservingFlight_def make_unique_def Let_def)

lemma reservingRoom_abort:
  assumes "getAvailableRooms_each (Hotels this) [] = Inr rooms"
    and "choice = - 1 \<or> choice > int (length rooms)"
  shows "\<exists>this'. reservingRoom this country_in city_in from_date_in to_date_in adults_in
                    children_in nights_in choice n = Inr (None, this', Suc (Suc n))"
  using assms by (auto simp: reservingRoom_def make_unique_def Let_def)

lemma reservingFlight_below_range:
  assumes "choice < 1" and "choice \<noteq> - 1"
  shows "reservingFlight this from_in from_date_in to_in to_date_in adults_in
           children_in infants_in choice n = Inl OutOfBounds"
  using assms by (auto simp: reservingFlight_def make_unique_def Let_def)

lemma reservingRoom_below_range:
  assumes "getAvailableRooms_each (Hotels this) [] = Inr rooms"
    and "choice < 1" and "choice \<noteq> - 1"
  shows "reservingRoom this country_in city_in from_date_in to_date_in adults_in
           children_in nights_in choice n = Inl OutOfBounds"
  using assms by (auto simp: reservingRoom_def make_unique_def Let_def)

text \<open>
  Claim C3. The sentinel \<open>-1\<close> and every choice above the number of offers abort with no
  reservation and nothing but the two working records allocated (the two lemmas on
  aborting above). A choice below 1 other than \<open>-1\<close> passes the guard
  \<^verbatim>\<open>(choice == -1) || (choice > size)\<close> and indexes the vector at \<open>choice - 1 < 0\<close>. With the
  builder's four flights and six rooms on offer, choice 0 reads out of bounds in both
  workflows.
\<close>

theorem reserving_choice_zero_out_of_bounds:
  "reservingFlight fresh_builder ''Toronto'' ''2025-01-25'' ''Istanbul'' ''2025-02-10'' 2 1 0 0 12
     = Inl OutOfBounds
   \<and> reservingRoom fresh_builder ''Turkey'' ''Istanbul'' ''2025-01-25'' ''2025-01-28'' 2 1 3 0 12
     = Inl OutOfBounds"
  by (simp add: reservingFlight_below_range reservingRoom_below_range [OF fresh_builder_rooms])

subsection \<open>Copying and moving\<close>

lemma Canada_copy_assign_copies:
  "ta \<noteq> oa \<Longrightarrow>
   CanadaFlightReservation_copy_assign
     (ta, \<lparr>canada_customer_info = Some (a, i0), canada_chosen_flight = Some (b, f0)\<rparr>)
     (oa, \<lparr>canada_customer_info = Some (x, i), canada_chosen_flight = Some (y, f)\<rparr>)
   = Inr \<lparr>canada_customer_info = Some (a, i), canada_chosen_flight = Some (b, f)\<rparr>"
  by (simp add: CanadaFlightReservation_copy_assign_def assign_pointee_def)

lemma Turkish_copy_assign_copies:
  "ta \<noteq> oa \<Longrightarrow>
   TurkishFlightReservation_copy_assign
     (ta, \<lparr>turkish_customer_info = Some (a, i0), turkish_chosen_flight = Some (b, f0)\<rparr>)
     (oa, \<lparr>turkish_customer_info = Some (x, i), turkish_chosen_flight = Some (y, f)\<rparr>)
   = Inr \<lparr>turkish_customer_info = Some (a, i), turkish_chosen_flight = Some (b, f)\<rparr>"
  by (simp add: TurkishFlightReservation_copy_assign_def assign_pointee_def)

lemma Turkish_move_assign_transfers:
  "ta \<noteq> oa \<Longrightarrow>
   TurkishFlightReservation_move_assign (ta, this) (oa, other)
   = (other, \<lparr>turkish_customer_info = None, turkish_chosen_flight = None\<rparr>)"
  by (simp add: TurkishFlightReservation_move_assign_def unique_ptr_move_assign_def
      unique_ptr_release_def unique_ptr_reset_def)

lemma Hilton_move_transfers:
  "HiltonHotelReservation_move_ctor other
   = (other, \<lparr>hilton_customer_info = None, hilton_chosen_room = None\<rparr>)"
  "ta \<noteq> oa \<Longrightarrow>
   HiltonHotelReservation_move_assign (ta, this) (oa, other)
   = (other, \<lparr>hilton_customer_info = None, hilton_chosen_room = None\<rparr>)"
  by (simp_all add: HiltonHotelReservation_move_ctor_def HiltonHotelReservation_move_assign_def
      unique_ptr_move_ctor_def unique_ptr_move_assign_def
      unique_ptr_release_def unique_ptr_reset_def)

lemma Marriott_move_transfers:
  "MarriottHotelReservation_move_ctor other
   = (other, \<lparr>marriott_customer_info = None, marriott_chosen_room = None\<rparr>)"
  "ta \<noteq> oa \<Longrightarrow>
   MarriottHotelReservation_move_assign (ta, this) (oa, other)
   = (other, \<lparr>marriott_customer_info = None, marriott_chosen_room = None\<rparr>)"
  by (simp_all add: MarriottHotelReservation_move_ctor_def
      MarriottHotelReservation_move_assign_def
      unique_ptr_move_ctor_def unique_ptr_move_assign_def
      unique_ptr_release_def unique_ptr_reset_def)

text \<open>
  Claim C7. Copy construction and copy assignment of a flight adapter copy both records
  (the lemmas on copying above), and the Turkish move assignment hands over both records.
  The Air Canada move assignment does not: it leaves the destination and the source as
  they were, whatever they are. Assigned the scenario's reservation (cost 600), a freshly
  constructed adapter still costs 0. Both flight adapters' move constructors read their own
  members before these hold a value.
\<close>

theorem flight_move_does_not_transfer:
  "CanadaFlightReservation_move_assign (ta, this) (oa, other) = (this, other)
   \<and> CanadaFlightReservation_getCost
        (fst (CanadaFlightReservation_move_assign
                (7, fst (CanadaFlightReservation_default 8)) (0, scenario_canada))) = Inr 0
   \<and> CanadaFlightReservation_getCost scenario_canada = Inr 600
   \<and> CanadaFlightReservation_move_ctor other = Inl IndeterminateRead
   \<and> TurkishFlightReservation_move_ctor t_other = Inl IndeterminateRead"
proof -
  have gen: "\<And>ta this oa other.
      CanadaFlightReservation_move_assign (ta, this) (oa, other) = (this, other)"
    by (simp add: CanadaFlightReservation_move_assign_def unique_ptr_self_move_assign_def
        unique_ptr_release_def unique_ptr_reset_def)
  have "CanadaFlightReservation_getCost (fst (CanadaFlightReservation_default 8)) = Inr 0"
    by (simp add: CanadaFlightReservation_default_def make_unique_def
        CanadaFlightReservation_getCost_def AirCanadaCustomerInfo_default_def
        AirCanadaFlight_default_def int_plus_def INT_MIN_def INT_MAX_def)
  moreover have "CanadaFlightReservation_getCost scenario_canada = Inr 600"
    by (simp add: scenario_canada_def CanadaFlightReservation_getCost_def
        int_plus_def INT_MIN_def INT_MAX_def)
  ultimately show ?thesis
    by (simp add: gen CanadaFlightReservation_move_ctor_def
        TurkishFlightReservation_move_ctor_def)
qed

lemma Itinerary_copy_ctor_clones:
  assumes "never_null_each other"
  shows "\<exists>cs n'. Itinerary_copy_ctor other n = Inr (cs, n')
           \<and> list_all2 (\<lambda>c r. same_state (snd c) (snd r)) cs other
           \<and> Itinerary_getCost cs = Itinerary_getCost other
           \<and> owned_each cs = [n..<n']"
proof -
  from clone_and_each(2) [OF assms, of "[]" n] obtain cs n' where
    e: "addReservation_each other [] n = Inr (cs, n')"
    and s: "list_all2 (\<lambda>c r. same_state (snd c) (snd r)) cs other"
    and ow: "owned_each cs = [n..<n']"
    by auto
  show ?thesis
    using e s ow for_each_Sum_same [OF s]
    by (simp add: Itinerary_copy_ctor_def Itinerary_default_def Itinerary_getCost_def)
qed

lemma Itinerary_copy_assign_appends:
  assumes "never_null_each other" and "ta \<noteq> oa"
  shows "\<exists>cs n'. Itinerary_copy_assign (ta, this) (oa, other) n = Inr (this @ cs, n')
           \<and> list_all2 (\<lambda>c r. same_state (snd c) (snd r)) cs other"
  using clone_and_each(2) [OF assms(1), of "this" n] assms(2)
  by (auto simp: Itinerary_copy_assign_def)

lemma Itinerary_move_transfers:
  "Itinerary_move_ctor other = (other, [])"
  "ta \<noteq> oa \<Longrightarrow> Itinerary_move_assign (ta, this) (oa, other) = (other, [])"
  by (simp_all add: Itinerary_move_ctor_def Itinerary_move_assign_def)

text \<open>
  Claim C8. The copy constructor yields exactly the clones of the source's elements and
  the moves hand over the whole vector (the lemmas above). The copy assignment does not
  empty the destination first: it appends the clones to what the destination holds.
  Assigning the itinerary of the scenario's hotel (cost 1800) to the itinerary of the
  scenario's flight leaves two elements costing 2400.
\<close>

theorem Itinerary_copy_assign_keeps_prior_contents:
  "\<exists>c n'. Itinerary_copy_assign (6, [(0, scenario_flight)]) (7, [(3, scenario_hotel)]) 8
             = Inr ([(0, scenario_flight), (8, c)], n')
     \<and> Itinerary_getCost [(0, scenario_flight), (8, c)] = Inr 2400
     \<and> Itinerary_getCost [(3, scenario_hotel)] = Inr 1800"
proof -
  have "never_null_each [(3, scenario_hotel)]"
    by (simp add: scenario_never_null)
  from Itinerary_copy_assign_appends [OF this, of 6 7 "[(0, scenario_flight)]" 8]
  obtain cs n' where
    e: "Itinerary_copy_assign (6, [(0, scenario_flight)]) (7, [(3, scenario_hotel)]) 8
          = Inr ([(0, scenario_flight)] @ cs, n')"
    and s: "list_all2 (\<lambda>c r. same_state (snd c) (snd r)) cs [(3::addr, scenario_hotel)]"
    by auto
  from s obtain p where cs: "cs = [p]" and sp: "same_state (snd p) scenario_hotel"
    by (auto simp: list_all2_Cons2)
  have "fst p = 8"
    using e by (auto simp: cs Itinerary_copy_assign_def scenario_hotel_def Hilton_copy
        split: sum.splits)
  then obtain c where p: "p = (8, c)" by (cases p) auto
  have "getCost c = Inr 1800"
    using sp by (simp add: p same_state_def scenario_getCost)
  then show ?thesis
    using e by (simp add: cs p Itinerary_getCost_def scenario_getCost)
qed

end
